theory Spec2Isabelle
  imports Complex_Main "HOL-Library.Product_Lexorder" "HOL-Library.Multiset"
begin

section \<open>Numbers\<close>

text \<open>
  The program computes with JavaScript numbers. In the model of the ledger and of the
  request queue, weights, prices and balances are exact real numbers: it follows the
  arithmetic the code writes down (products, sums, \<^verbatim>\<open>Math.round\<close>) and leaves the
  binary rounding of IEEE doubles aside. The values the calculator returns do depend on
  that rounding; they are modelled on doubles further below.
  \<^verbatim>\<open>Math.round(x)\<close> is the integer nearest to \<open>x\<close>, a tie going to the larger one,
  that is \<open>\<lfloor>x + 1/2\<rfloor>\<close>.
\<close>

definition Math_round :: "real \<Rightarrow> real" where
  "Math_round x = of_int \<lfloor>x + 1 / 2\<rfloor>"

text \<open>\<^verbatim>\<open>v || 0\<close> on a numeric field that may be absent (\<^verbatim>\<open>undefined\<close>).\<close>

definition or_zero :: "real option \<Rightarrow> real" where
  "or_zero v = (case v of None \<Rightarrow> 0 | Some x \<Rightarrow> x)"

text \<open>The spec's \<open>round2\<close>: rounding to two decimals.\<close>

definition round2 :: "real \<Rightarrow> real" where
  "round2 x = Math_round (x * 100) / 100"

section \<open>The catalog: \<^verbatim>\<open>CONFIG.WASTE_TYPES\<close> (app.js)\<close>

record waste_type =
  wtype :: string
  co2_factor :: real
  points_factor :: real
  price_per_kg :: real

definition WASTE_TYPES :: "waste_type list" where
  "WASTE_TYPES =
    [\<lparr>wtype = ''organic'', co2_factor = 6 / 10, points_factor = 10, price_per_kg = 3\<rparr>,
     \<lparr>wtype = ''plastic'', co2_factor = 12 / 10, points_factor = 10, price_per_kg = 12\<rparr>,
     \<lparr>wtype = ''paper'', co2_factor = 4 / 10, points_factor = 10, price_per_kg = 8\<rparr>,
     \<lparr>wtype = ''metal'', co2_factor = 1 / 10, points_factor = 15, price_per_kg = 45\<rparr>,
     \<lparr>wtype = ''glass'', co2_factor = 1 / 10, points_factor = 12, price_per_kg = 6\<rparr>,
     \<lparr>wtype = ''electronic'', co2_factor = 8 / 10, points_factor = 20, price_per_kg = 85\<rparr>]"

section \<open>The value calculator: \<^verbatim>\<open>Utils.calculate*\<close> (app.js)\<close>

definition calculateWastePoints :: "string \<Rightarrow> real \<Rightarrow> real" where
  "calculateWastePoints wasteType weight =
     (case find (\<lambda>w. wtype w = wasteType) WASTE_TYPES of
        Some waste \<Rightarrow> Math_round (weight * points_factor waste)
      | None \<Rightarrow> 0)"

definition calculateCO2Saved :: "string \<Rightarrow> real \<Rightarrow> real" where
  "calculateCO2Saved wasteType weight =
     (case find (\<lambda>w. wtype w = wasteType) WASTE_TYPES of
        Some waste \<Rightarrow> Math_round ((weight * co2_factor waste) * 100) / 100
      | None \<Rightarrow> 0)"

definition calculateTakaEarnings :: "string \<Rightarrow> real \<Rightarrow> real" where
  "calculateTakaEarnings wasteType weight =
     (case find (\<lambda>w. wtype w = wasteType) WASTE_TYPES of
        Some waste \<Rightarrow> Math_round ((weight * price_per_kg waste) * 100) / 100
      | None \<Rightarrow> 0)"

section \<open>Data (waste.js, app.js)\<close>

text \<open>One entry of the breakdown object built by \<^verbatim>\<open>getWasteTypeBreakdown\<close>.\<close>

record 'n breakdown_entry =
  weight :: 'n
  entry_points :: 'n
  entry_co2_saved :: 'n
  taka_earned :: 'n

text \<open>
  A JavaScript object with string keys is an association list in insertion order;
  assigning to a key that is present replaces its value in place, assigning to a new key
  appends it. (An engine lists keys that are array indices, such as \<^verbatim>\<open>"7"\<close>, ahead of
  the others; the type names of the waste cards are words.)
\<close>

fun obj_assign :: "'k \<Rightarrow> 'v \<Rightarrow> ('k \<times> 'v) list \<Rightarrow> ('k \<times> 'v) list" where
  "obj_assign k v [] = [(k, v)]"
| "obj_assign k v ((k', v') # kvs) =
     (if k' = k then (k, v) # kvs else (k', v') # obj_assign k v kvs)"

record 'n waste_data =
  totalWeight :: 'n
  totalPoints :: 'n
  totalCO2 :: 'n
  totalTaka :: 'n
  wasteTypes :: "(string \<times> 'n breakdown_entry) list"

datatype role = Household | Collector

text \<open>
  A user profile. The ledger fields live in the profile. A field is \<open>None\<close> when it
  holds no number: it is absent (a household profile created at sign-up has no
  \<^verbatim>\<open>earnings\<close> and no \<^verbatim>\<open>jobs_today\<close>) or it is \<^verbatim>\<open>NaN\<close>, which the session
  stores as \<^verbatim>\<open>null\<close>. Every read of these fields goes through \<^verbatim>\<open>|| 0\<close>, which
  takes both for 0.
\<close>

record user =
  uid :: string
  uname :: string
  email :: string
  phone :: string
  address :: string
  user_type :: role
  points :: "real option"
  co2_saved :: "real option"
  earnings :: "real option"
  jobs_today :: "real option"

datatype submission_status = Submitted

text \<open>Timestamps are milliseconds since the epoch (what \<^verbatim>\<open>new Date(iso)\<close> reads back).\<close>

text \<open>
  The totals and the breakdown of a submission are copied from \<^verbatim>\<open>Waste.wasteData\<close>;
  they are \<open>None\<close> (\<^verbatim>\<open>undefined\<close>) when that object does not have them.
\<close>

record submission =
  sub_id :: string
  user_id :: string
  date :: int
  total_weight :: "real option"
  total_points :: "real option"
  total_co2_saved :: "real option"
  waste_types :: "(string \<times> real breakdown_entry) list option"
  sub_status :: submission_status

datatype request_status = Pending | Accepted

datatype priority_level = High | Medium | Low

record request =
  req_id :: string
  submission_id :: string
  household_id :: string
  household_name :: string
  household_address :: string
  household_phone :: string
  req_total_weight :: "real option"
  req_waste_types :: "(string \<times> real breakdown_entry) list"
  estimated_value :: real
  status :: request_status
  created_at :: int
  priority :: priority_level
  collector_id :: "string option"
  collector_name :: "string option"
  collector_phone :: "string option"
  accepted_at :: "int option"

text \<open>
  The state the operations read and write: the submission form (one weight per
  waste-type card, in document order, already read by \<^verbatim>\<open>parseFloat(..) || 0\<close>),
  \<^verbatim>\<open>Waste.wasteData\<close>, the two collections in the store, \<^verbatim>\<open>Auth.currentUser\<close>,
  the saved session and the stored demo users. \<^verbatim>\<open>Waste.wasteData\<close> is \<open>None\<close> while
  it is the empty object \<^verbatim>\<open>{}\<close> the module starts with, until the first
  \<^verbatim>\<open>updateWasteSummary\<close> replaces it. The store is taken to accept every write.
\<close>

record state =
  inputs :: "(string \<times> real) list"
  wasteData :: "real waste_data option"
  user_submissions :: "submission list"
  pickup_requests :: "request list"
  currentUser :: "user option"
  session :: "user option"
  users :: "user list"

text \<open>
  The message an operation reports to the user. \<open>FailedToSubmit\<close> is the message of the
  \<^verbatim>\<open>catch\<close> branch of \<^verbatim>\<open>handleWasteSubmission\<close>. The \<^verbatim>\<open>catch\<close> branch of
  \<^verbatim>\<open>acceptPickupRequest\<close> has no constructor: no statement of its \<^verbatim>\<open>try\<close> block
  throws on a state of this type.
\<close>

datatype toast =
    PleaseLogIn | PleaseEnterAmounts | WasteSubmitted | FailedToSubmit
  | OnlyCollectors | RequestNotFound | RequestAccepted

section \<open>\<^verbatim>\<open>Auth.updateUser\<close> (app.js)\<close>

text \<open>
  The argument of \<^verbatim>\<open>updateUser\<close>: the ledger fields an update object may carry. A
  field is \<open>None\<close> when the object does not have the key and \<open>Some v\<close> when it has it,
  with \<open>v\<close> the new content of the profile field (\<open>None\<close> for \<^verbatim>\<open>NaN\<close>).
\<close>

record user_updates =
  upd_points :: "real option option"
  upd_co2_saved :: "real option option"
  upd_earnings :: "real option option"
  upd_jobs_today :: "real option option"

definition no_updates :: user_updates where
  "no_updates = \<lparr>upd_points = None, upd_co2_saved = None, upd_earnings = None,
                  upd_jobs_today = None\<rparr>"

text \<open>\<^verbatim>\<open>Object.assign(this.currentUser, updates)\<close>.\<close>

definition Object_assign :: "user \<Rightarrow> user_updates \<Rightarrow> user" where
  "Object_assign u upd =
     u\<lparr>points := (case upd_points upd of None \<Rightarrow> points u | Some v \<Rightarrow> v),
       co2_saved := (case upd_co2_saved upd of None \<Rightarrow> co2_saved u | Some v \<Rightarrow> v),
       earnings := (case upd_earnings upd of None \<Rightarrow> earnings u | Some v \<Rightarrow> v),
       jobs_today := (case upd_jobs_today upd of None \<Rightarrow> jobs_today u | Some v \<Rightarrow> v)\<rparr>"

fun findIndex :: "('a \<Rightarrow> bool) \<Rightarrow> 'a list \<Rightarrow> nat option" where
  "findIndex P [] = None"
| "findIndex P (x # xs) = (if P x then Some 0 else map_option Suc (findIndex P xs))"

definition saveDemoUser :: "user \<Rightarrow> user list \<Rightarrow> user list" where
  "saveDemoUser u us =
     (case findIndex (\<lambda>v. uid v = uid u) us of
        Some index \<Rightarrow> us[index := u]
      | None \<Rightarrow> us @ [u])"

text \<open>
  The local effect of \<^verbatim>\<open>updateUser\<close>: the current user object is patched, saved as the
  session, and saved among the demo users when its e-mail has no \<^verbatim>\<open>@\<close>. Without a
  current user nothing happens. The function is asynchronous and its callers do not wait
  for it; when a remote backend is connected the patch is applied once the remote call
  has returned. The model applies it at the call, which is what happens without a
  backend and is the state every run ends in.
\<close>

definition updateUser :: "user_updates \<Rightarrow> state \<Rightarrow> state" where
  "updateUser updates s =
     (case currentUser s of
        None \<Rightarrow> s
      | Some u \<Rightarrow>
          let u' = Object_assign u updates
          in s\<lparr>currentUser := Some u',
               session := Some u',
               users := (if CHR ''@'' \<in> set (email u') then users s
                         else saveDemoUser u' (users s))\<rparr>)"

section \<open>Batch valuation: \<^verbatim>\<open>updateWasteSummary\<close>, \<^verbatim>\<open>getWasteTypeBreakdown\<close> (waste.js)\<close>

text \<open>The \<^verbatim>\<open>forEach\<close> over the inputs, with its four running totals.\<close>

fun summary_loop ::
  "(string \<times> real) list \<Rightarrow> real \<times> real \<times> real \<times> real \<Rightarrow> real \<times> real \<times> real \<times> real" where
  "summary_loop [] acc = acc"
| "summary_loop ((wasteType, w) # rest) (tw, tp, tc, tt) =
     (if w > 0
      then summary_loop rest
             (tw + w,
              tp + calculateWastePoints wasteType w,
              tc + calculateCO2Saved wasteType w,
              tt + calculateTakaEarnings wasteType w)
      else summary_loop rest (tw, tp, tc, tt))"

definition make_entry :: "string \<Rightarrow> real \<Rightarrow> real breakdown_entry" where
  "make_entry wasteType w =
     \<lparr>weight = w,
      entry_points = calculateWastePoints wasteType w,
      entry_co2_saved = calculateCO2Saved wasteType w,
      taka_earned = calculateTakaEarnings wasteType w\<rparr>"

fun breakdown_loop ::
  "(string \<times> real) list \<Rightarrow> (string \<times> real breakdown_entry) list \<Rightarrow> (string \<times> real breakdown_entry) list" where
  "breakdown_loop [] breakdown = breakdown"
| "breakdown_loop ((wasteType, w) # rest) breakdown =
     (if w > 0
      then breakdown_loop rest (obj_assign wasteType (make_entry wasteType w) breakdown)
      else breakdown_loop rest breakdown)"

definition getWasteTypeBreakdown :: "(string \<times> real) list \<Rightarrow> (string \<times> real breakdown_entry) list" where
  "getWasteTypeBreakdown ins = breakdown_loop ins []"

definition summarize :: "(string \<times> real) list \<Rightarrow> real waste_data" where
  "summarize ins =
     (case summary_loop ins (0, 0, 0, 0) of
        (tw, tp, tc, tt) \<Rightarrow>
          \<lparr>totalWeight = tw, totalPoints = tp, totalCO2 = tc, totalTaka = tt,
           wasteTypes = getWasteTypeBreakdown ins\<rparr>)"

definition updateWasteSummary :: "state \<Rightarrow> state" where
  "updateWasteSummary s = s\<lparr>wasteData := Some (summarize (inputs s))\<rparr>"

definition resetWasteForm :: "state \<Rightarrow> state" where
  "resetWasteForm s =
     updateWasteSummary (s\<lparr>inputs := map (\<lambda>(wasteType, w). (wasteType, 0)) (inputs s)\<rparr>)"

section \<open>IEEE double arithmetic\<close>

text \<open>
  The definitions above compute in exact arithmetic; the statements about the ledger and
  the request queue are about them. The engine computes with IEEE doubles, and the values
  the calculator returns depend on their rounding (4.1 kg of metal earn 61 points, not
  the 62 of the exact product 61.5). For the statements about those values the
  calculators and the summary loop are modelled a second time, on doubles, operation by
  operation.

  A JavaScript number is a finite double, an infinity or \<^verbatim>\<open>NaN\<close>. A finite double is
  given by its value; the two zeros are one value (the program never divides by a
  variable, prints through \<^verbatim>\<open>toFixed\<close> and stores through JSON, none of which tells them
  apart).
\<close>

datatype jsnum = Fin real | PosInf | NegInf | NaN

text \<open>\<open>expo x\<close> is the binary exponent of a positive \<open>x\<close>: \<open>2 ^ expo x \<le> x < 2 ^ (expo x + 1)\<close>.\<close>

function expo_up :: "real \<Rightarrow> int" where
  "expo_up x = (if x < 2 then 0 else 1 + expo_up (x / 2))"
  by pat_completeness auto
termination
proof (relation "measure (\<lambda>x. nat \<lfloor>x\<rfloor>)")
  show "wf (measure (\<lambda>x. nat \<lfloor>x\<rfloor>))"
    by simp
next
  fix x :: real
  assume "\<not> x < 2"
  then have "x / 2 \<le> x - 1"
    by simp
  then have "\<lfloor>x / 2\<rfloor> \<le> \<lfloor>x - 1\<rfloor>"
    by (rule floor_mono)
  moreover have "1 \<le> \<lfloor>x\<rfloor>"
    using \<open>\<not> x < 2\<close> by (simp add: le_floor_iff)
  ultimately show "(x / 2, x) \<in> measure (\<lambda>x. nat \<lfloor>x\<rfloor>)"
    by simp
qed

function expo_down :: "real \<Rightarrow> int" where
  "expo_down x = (if x \<le> 0 \<or> 1 \<le> x then 0 else expo_down (2 * x) - 1)"
  by pat_completeness auto
termination
proof (relation "measure (\<lambda>x. nat \<lfloor>1 / x\<rfloor>)")
  show "wf (measure (\<lambda>x. nat \<lfloor>1 / x\<rfloor>))"
    by simp
next
  fix x :: real
  assume "\<not> (x \<le> 0 \<or> 1 \<le> x)"
  then have x: "0 < x" "x < 1"
    by simp_all
  then have "1 \<le> 1 / x"
    by simp
  then have f: "1 \<le> \<lfloor>1 / x\<rfloor>"
    by (simp add: le_floor_iff)
  have "\<lfloor>1 / (2 * x)\<rfloor> < \<lfloor>1 / x\<rfloor>"
  proof (cases "2 \<le> 1 / x")
    case True
    then have "1 / (2 * x) \<le> 1 / x - 1"
      using x by (simp add: field_simps)
    then have "\<lfloor>1 / (2 * x)\<rfloor> \<le> \<lfloor>1 / x - 1\<rfloor>"
      by (rule floor_mono)
    then show ?thesis by simp
  next
    case False
    then have "1 / (2 * x) < 1"
      using x by (simp add: field_simps)
    moreover have "0 \<le> 1 / (2 * x)"
      using x by simp
    ultimately have "\<lfloor>1 / (2 * x)\<rfloor> = 0"
      by (simp add: floor_eq_iff)
    with f show ?thesis by simp
  qed
  with f show "(2 * x, x) \<in> measure (\<lambda>x. nat \<lfloor>1 / x\<rfloor>)"
    by simp
qed

definition expo :: "real \<Rightarrow> int" where
  "expo x = (if 1 \<le> x then expo_up x else expo_down x)"

definition pow2 :: "int \<Rightarrow> real" where
  "pow2 k = (if 0 \<le> k then 2 ^ nat k else 1 / 2 ^ nat (- k))"

text \<open>Rounding to the nearest integer, a tie going to the even one.\<close>

definition round_even :: "real \<Rightarrow> int" where
  "round_even y =
     (if y - of_int \<lfloor>y\<rfloor> < 1 / 2 then \<lfloor>y\<rfloor>
      else if 1 / 2 < y - of_int \<lfloor>y\<rfloor> then \<lfloor>y\<rfloor> + 1
      else if even \<lfloor>y\<rfloor> then \<lfloor>y\<rfloor>
      else \<lfloor>y\<rfloor> + 1)"

text \<open>
  The spacing of the doubles around a positive \<open>a\<close>: 53 significant bits, and the
  fixed spacing of the subnormal range below \<open>2 ^ - 1022\<close>.
\<close>

definition ulp_of :: "real \<Rightarrow> real" where
  "ulp_of a = pow2 (max (expo a) (- 1022) - 52)"

definition nearest :: "real \<Rightarrow> real" where
  "nearest a = of_int (round_even (a / ulp_of a)) * ulp_of a"

text \<open>
  \<open>fl x\<close> is the double that a correctly rounded operation returns for the exact result
  \<open>x\<close> (round to nearest, ties to even, overflow to an infinity). It is also the value
  of a decimal literal and of \<^verbatim>\<open>parseFloat\<close> on a decimal string.
\<close>

definition fl :: "real \<Rightarrow> jsnum" where
  "fl x =
     (if x = 0 then Fin 0
      else if pow2 1024 \<le> nearest \<bar>x\<bar> then (if 0 < x then PosInf else NegInf)
      else Fin (if 0 < x then nearest \<bar>x\<bar> else - nearest \<bar>x\<bar>))"

fun js_add :: "jsnum \<Rightarrow> jsnum \<Rightarrow> jsnum" where
  "js_add (Fin x) (Fin y) = fl (x + y)"
| "js_add NaN b = NaN"
| "js_add a NaN = NaN"
| "js_add PosInf NegInf = NaN"
| "js_add NegInf PosInf = NaN"
| "js_add PosInf b = PosInf"
| "js_add a PosInf = PosInf"
| "js_add NegInf b = NegInf"
| "js_add a NegInf = NegInf"

fun js_mul :: "jsnum \<Rightarrow> jsnum \<Rightarrow> jsnum" where
  "js_mul (Fin x) (Fin y) = fl (x * y)"
| "js_mul NaN b = NaN"
| "js_mul a NaN = NaN"
| "js_mul (Fin x) PosInf = (if x = 0 then NaN else if 0 < x then PosInf else NegInf)"
| "js_mul (Fin x) NegInf = (if x = 0 then NaN else if 0 < x then NegInf else PosInf)"
| "js_mul PosInf (Fin y) = (if y = 0 then NaN else if 0 < y then PosInf else NegInf)"
| "js_mul NegInf (Fin y) = (if y = 0 then NaN else if 0 < y then NegInf else PosInf)"
| "js_mul PosInf PosInf = PosInf"
| "js_mul PosInf NegInf = NegInf"
| "js_mul NegInf PosInf = NegInf"
| "js_mul NegInf NegInf = PosInf"

text \<open>Division by a positive finite number; the program divides by 100 only.\<close>

fun js_div_pos :: "jsnum \<Rightarrow> real \<Rightarrow> jsnum" where
  "js_div_pos (Fin x) d = fl (x / d)"
| "js_div_pos a d = a"

text \<open>\<^verbatim>\<open>Math.round\<close>: the nearest integer, a tie going up; it is exact on doubles.\<close>

fun Math_round_f64 :: "jsnum \<Rightarrow> jsnum" where
  "Math_round_f64 (Fin x) = Fin (of_int \<lfloor>x + 1 / 2\<rfloor>)"
| "Math_round_f64 a = a"

text \<open>\<^verbatim>\<open>a > b\<close>; a comparison with \<^verbatim>\<open>NaN\<close> is false.\<close>

fun js_gt :: "jsnum \<Rightarrow> jsnum \<Rightarrow> bool" where
  "js_gt (Fin x) (Fin y) = (y < x)"
| "js_gt PosInf (Fin y) = True"
| "js_gt PosInf NegInf = True"
| "js_gt (Fin x) NegInf = True"
| "js_gt a b = False"

section \<open>The value calculator and the batch valuation on doubles\<close>

text \<open>
  The catalog's factors are the doubles of their decimal literals. The weight is the
  double the form delivers.
\<close>

definition calculateWastePoints_f64 :: "string \<Rightarrow> jsnum \<Rightarrow> jsnum" where
  "calculateWastePoints_f64 wasteType w =
     (case find (\<lambda>c. wtype c = wasteType) WASTE_TYPES of
        Some waste \<Rightarrow> Math_round_f64 (js_mul w (fl (points_factor waste)))
      | None \<Rightarrow> Fin 0)"

definition calculateCO2Saved_f64 :: "string \<Rightarrow> jsnum \<Rightarrow> jsnum" where
  "calculateCO2Saved_f64 wasteType w =
     (case find (\<lambda>c. wtype c = wasteType) WASTE_TYPES of
        Some waste \<Rightarrow>
          js_div_pos (Math_round_f64 (js_mul (js_mul w (fl (co2_factor waste))) (Fin 100))) 100
      | None \<Rightarrow> Fin 0)"

definition calculateTakaEarnings_f64 :: "string \<Rightarrow> jsnum \<Rightarrow> jsnum" where
  "calculateTakaEarnings_f64 wasteType w =
     (case find (\<lambda>c. wtype c = wasteType) WASTE_TYPES of
        Some waste \<Rightarrow>
          js_div_pos (Math_round_f64 (js_mul (js_mul w (fl (price_per_kg waste))) (Fin 100))) 100
      | None \<Rightarrow> Fin 0)"

fun summary_loop_f64 ::
  "(string \<times> jsnum) list \<Rightarrow> jsnum \<times> jsnum \<times> jsnum \<times> jsnum \<Rightarrow> jsnum \<times> jsnum \<times> jsnum \<times> jsnum" where
  "summary_loop_f64 [] acc = acc"
| "summary_loop_f64 ((wasteType, w) # rest) (tw, tp, tc, tt) =
     (if js_gt w (Fin 0)
      then summary_loop_f64 rest
             (js_add tw w,
              js_add tp (calculateWastePoints_f64 wasteType w),
              js_add tc (calculateCO2Saved_f64 wasteType w),
              js_add tt (calculateTakaEarnings_f64 wasteType w))
      else summary_loop_f64 rest (tw, tp, tc, tt))"

definition make_entry_f64 :: "string \<Rightarrow> jsnum \<Rightarrow> jsnum breakdown_entry" where
  "make_entry_f64 wasteType w =
     \<lparr>weight = w,
      entry_points = calculateWastePoints_f64 wasteType w,
      entry_co2_saved = calculateCO2Saved_f64 wasteType w,
      taka_earned = calculateTakaEarnings_f64 wasteType w\<rparr>"

fun breakdown_loop_f64 ::
  "(string \<times> jsnum) list \<Rightarrow> (string \<times> jsnum breakdown_entry) list \<Rightarrow>
   (string \<times> jsnum breakdown_entry) list" where
  "breakdown_loop_f64 [] breakdown = breakdown"
| "breakdown_loop_f64 ((wasteType, w) # rest) breakdown =
     (if js_gt w (Fin 0)
      then breakdown_loop_f64 rest (obj_assign wasteType (make_entry_f64 wasteType w) breakdown)
      else breakdown_loop_f64 rest breakdown)"

definition getWasteTypeBreakdown_f64 ::
  "(string \<times> jsnum) list \<Rightarrow> (string \<times> jsnum breakdown_entry) list" where
  "getWasteTypeBreakdown_f64 ins = breakdown_loop_f64 ins []"

text \<open>The \<^verbatim>\<open>wasteData\<close> object that \<^verbatim>\<open>updateWasteSummary\<close> leaves for the given inputs.\<close>

definition summarize_f64 :: "(string \<times> jsnum) list \<Rightarrow> jsnum waste_data" where
  "summarize_f64 ins =
     (case summary_loop_f64 ins (Fin 0, Fin 0, Fin 0, Fin 0) of
        (tw, tp, tc, tt) \<Rightarrow>
          \<lparr>totalWeight = tw, totalPoints = tp, totalCO2 = tc, totalTaka = tt,
           wasteTypes = getWasteTypeBreakdown_f64 ins\<rparr>)"

text \<open>
  The words of the spec on doubles: rounding to two decimals as the code computes it, and
  a sum as the loop accumulates it, from 0 and in the order of the list.
\<close>

definition round2_f64 :: "jsnum \<Rightarrow> jsnum" where
  "round2_f64 a = js_div_pos (Math_round_f64 (js_mul a (Fin 100))) 100"

definition js_sum :: "jsnum list \<Rightarrow> jsnum" where
  "js_sum xs = foldl js_add (Fin 0) xs"

section \<open>Creating a pickup request (waste.js)\<close>

definition pricing :: "(string \<times> real) list" where
  "pricing = [(''plastic'', 15), (''paper'', 8), (''metal'', 25), (''glass'', 5),
              (''electronic'', 50), (''organic'', 3)]"

text \<open>
  The loop of \<^verbatim>\<open>calculateEstimatedValue\<close> over the entries of the breakdown, with
  \<^verbatim>\<open>pricing[type] || 5\<close>: the rate of the table, or 5 for a type the table does not
  have. (Type names are those of the waste cards; a name that an object inherits, such as
  \<^verbatim>\<open>constructor\<close>, is outside the model.)
\<close>

fun value_loop :: "(string \<times> real breakdown_entry) list \<Rightarrow> real \<Rightarrow> real" where
  "value_loop [] totalValue = totalValue"
| "value_loop ((wasteType, data) # rest) totalValue =
     (let rate = (case map_of pricing wasteType of
                    None \<Rightarrow> 5
                  | Some p \<Rightarrow> if p = 0 then 5 else p)
      in value_loop rest (totalValue + weight data * rate))"

definition calculateEstimatedValue :: "(string \<times> real breakdown_entry) list \<Rightarrow> real" where
  "calculateEstimatedValue wts = Math_round (value_loop wts 0)"

definition calculatePriority :: "real \<Rightarrow> priority_level" where
  "calculatePriority tw = (if tw \<ge> 10 then High else if tw \<ge> 5 then Medium else Low)"

datatype js_error = TypeError

text \<open>
  \<^verbatim>\<open>createPickupRequest(submission)\<close>; the fresh identifier and the clock reading
  are parameters. Without a current user it returns at once. When the submission has no
  breakdown, \<^verbatim>\<open>Object.entries(undefined)\<close> in \<^verbatim>\<open>calculateEstimatedValue\<close> throws
  while the request object is being built, before the store is read. A total weight that
  is \<^verbatim>\<open>undefined\<close> fails both comparisons of \<^verbatim>\<open>calculatePriority\<close>, which then
  answers \<^verbatim>\<open>'low'\<close>.
\<close>

definition createPickupRequest ::
  "string \<Rightarrow> int \<Rightarrow> submission \<Rightarrow> state \<Rightarrow> js_error + state" where
  "createPickupRequest new_id now sub s =
     (case currentUser s of
        None \<Rightarrow> Inr s
      | Some cu \<Rightarrow>
          (case waste_types sub of
             None \<Rightarrow> Inl TypeError
           | Some wts \<Rightarrow>
               let pickupRequest =
                 \<lparr>req_id = new_id,
                  submission_id = sub_id sub,
                  household_id = uid cu,
                  household_name = uname cu,
                  household_address = address cu,
                  household_phone = phone cu,
                  req_total_weight = total_weight sub,
                  req_waste_types = wts,
                  estimated_value = calculateEstimatedValue wts,
                  status = Pending,
                  created_at = now,
                  priority = (case total_weight sub of
                                None \<Rightarrow> Low
                              | Some tw \<Rightarrow> calculatePriority tw),
                  collector_id = None,
                  collector_name = None,
                  collector_phone = None,
                  accepted_at = None\<rparr>
               in Inr (s\<lparr>pickup_requests := pickup_requests s @ [pickupRequest]\<rparr>)))"

section \<open>Recording a submission: \<^verbatim>\<open>handleWasteSubmission\<close> (waste.js)\<close>

text \<open>
  The function reads \<^verbatim>\<open>Waste.wasteData\<close> as the last \<^verbatim>\<open>updateWasteSummary\<close> left it.
  On the empty object every field read is \<^verbatim>\<open>undefined\<close>: the test
  \<^verbatim>\<open>totalWeight === 0\<close> is false, a sum with \<^verbatim>\<open>undefined\<close> is \<^verbatim>\<open>NaN\<close>, and so is
  its rounding. The body runs inside \<^verbatim>\<open>try\<close>: when \<^verbatim>\<open>createPickupRequest\<close> throws,
  the \<^verbatim>\<open>catch\<close> branch reports the failure and the writes made so far stay. The two
  fresh identifiers and the two clock readings are parameters.
\<close>

definition handleWasteSubmission ::
  "string \<Rightarrow> int \<Rightarrow> string \<Rightarrow> int \<Rightarrow> state \<Rightarrow> toast \<times> state" where
  "handleWasteSubmission new_sub_id now new_req_id now' s =
     (case currentUser s of
        None \<Rightarrow> (PleaseLogIn, s)
      | Some cu \<Rightarrow>
          if map_option totalWeight (wasteData s) = Some 0 then (PleaseEnterAmounts, s)
          else
            let sub =
                  \<lparr>sub_id = new_sub_id,
                   user_id = uid cu,
                   date = now,
                   total_weight = map_option totalWeight (wasteData s),
                   total_points = map_option totalPoints (wasteData s),
                   total_co2_saved = map_option totalCO2 (wasteData s),
                   waste_types = map_option wasteTypes (wasteData s),
                   sub_status = Submitted\<rparr>;
                s1 = s\<lparr>user_submissions := user_submissions s @ [sub]\<rparr>;
                updatedPoints =
                  map_option (\<lambda>tp. or_zero (points cu) + tp)
                    (map_option totalPoints (wasteData s));
                updatedCO2 =
                  map_option (\<lambda>tc. or_zero (co2_saved cu) + tc)
                    (map_option totalCO2 (wasteData s));
                s2 = updateUser
                       (no_updates
                          \<lparr>upd_points := Some updatedPoints,
                           upd_co2_saved :=
                             Some (map_option (\<lambda>c. Math_round (c * 100) / 100) updatedCO2)\<rparr>)
                       s1
            in (case createPickupRequest new_req_id now' sub s2 of
                  Inl e \<Rightarrow> (FailedToSubmit, s2)
                | Inr s3 \<Rightarrow> (WasteSubmitted, resetWasteForm s3)))"

section \<open>Listing the pending requests: \<^verbatim>\<open>loadPickupRequests\<close> (waste.js)\<close>

definition priorityOrder :: "priority_level \<Rightarrow> int" where
  "priorityOrder p = (case p of High \<Rightarrow> 3 | Medium \<Rightarrow> 2 | Low \<Rightarrow> 1)"

text \<open>The comparator handed to \<^verbatim>\<open>sort\<close>.\<close>

definition compare_requests :: "request \<Rightarrow> request \<Rightarrow> int" where
  "compare_requests a b =
     (let priorityDiff = priorityOrder (priority b) - priorityOrder (priority a)
      in if priorityDiff \<noteq> 0 then priorityDiff else created_at b - created_at a)"

text \<open>
  \<^verbatim>\<open>Array.prototype.sort\<close> is stable: elements the comparator does not separate keep
  their order. Insertion from the right, each element placed before the first one it does
  not have to follow, computes that arrangement.
\<close>

fun insert_by :: "('a \<Rightarrow> 'a \<Rightarrow> int) \<Rightarrow> 'a \<Rightarrow> 'a list \<Rightarrow> 'a list" where
  "insert_by cmp x [] = [x]"
| "insert_by cmp x (y # ys) =
     (if cmp x y \<le> 0 then x # y # ys else y # insert_by cmp x ys)"

definition sort_by :: "('a \<Rightarrow> 'a \<Rightarrow> int) \<Rightarrow> 'a list \<Rightarrow> 'a list" where
  "sort_by cmp xs = foldr (insert_by cmp) xs []"

text \<open>The list that \<^verbatim>\<open>loadPickupRequests\<close> computes and renders.\<close>

definition loadPickupRequests :: "state \<Rightarrow> request list" where
  "loadPickupRequests s =
     sort_by compare_requests (filter (\<lambda>r. status r = Pending) (pickup_requests s))"

section \<open>Accepting a request: \<^verbatim>\<open>acceptPickupRequest\<close> (waste.js)\<close>

text \<open>
  The clock reading is a parameter. The function returns nothing; the model returns the
  message it shows and the state it leaves.
\<close>

definition acceptPickupRequest :: "string \<Rightarrow> int \<Rightarrow> state \<Rightarrow> toast \<times> state" where
  "acceptPickupRequest requestId now s =
     (case currentUser s of
        None \<Rightarrow> (OnlyCollectors, s)
      | Some cu \<Rightarrow>
          if user_type cu \<noteq> Collector then (OnlyCollectors, s)
          else
            (case findIndex (\<lambda>r. req_id r = requestId) (pickup_requests s) of
               None \<Rightarrow> (RequestNotFound, s)
             | Some requestIndex \<Rightarrow>
                 let req = pickup_requests s ! requestIndex;
                     s1 = s\<lparr>pickup_requests :=
                             (pickup_requests s)
                               [requestIndex :=
                                  req\<lparr>status := Accepted,
                                      collector_id := Some (uid cu),
                                      collector_name := Some (uname cu),
                                      collector_phone := Some (phone cu),
                                      accepted_at := Some now\<rparr>]\<rparr>;
                     newEarnings = or_zero (earnings cu) + estimated_value req;
                     newJobsToday = or_zero (jobs_today cu) + 1
                 in (RequestAccepted,
                     updateUser (no_updates\<lparr>upd_earnings := Some (Some newEarnings),
                                            upd_jobs_today := Some (Some newJobsToday)\<rparr>) s1)))"


section \<open>Auxiliary definitions for the proofs\<close>

text \<open>The submission record that \<^verbatim>\<open>handleWasteSubmission\<close> builds.\<close>

definition new_submission ::
  "string \<Rightarrow> int \<Rightarrow> user \<Rightarrow> real waste_data option \<Rightarrow> submission" where
  "new_submission new_sub_id now cu wd =
     \<lparr>sub_id = new_sub_id, user_id = uid cu, date = now,
      total_weight = map_option totalWeight wd,
      total_points = map_option totalPoints wd,
      total_co2_saved = map_option totalCO2 wd,
      waste_types = map_option wasteTypes wd, sub_status = Submitted\<rparr>"

text \<open>
  The comparator orders two requests exactly as their keys are ordered: the pair of the
  negated priority rank and the negated creation time, compared lexicographically.
\<close>

definition request_key :: "request \<Rightarrow> int \<times> int" where
  "request_key r = (- priorityOrder (priority r), - created_at r)"

section \<open>Example data\<close>

text \<open>The two demo accounts of \<^verbatim>\<open>CONFIG.DEMO_USERS\<close>.\<close>

definition demo_collector :: user where
  "demo_collector =
     \<lparr>uid = ''demo_collector_1'', uname = ''Karim Mia'', email = ''collector@example.com'',
      phone = ''01798765432'', address = ''Uttara, Dhaka'', user_type = Collector,
      points = None, co2_saved = None, earnings = Some 2500, jobs_today = Some 3\<rparr>"

definition demo_household :: user where
  "demo_household =
     \<lparr>uid = ''demo_household_1'', uname = ''Rahul Ahmed'', email = ''test@example.com'',
      phone = ''01712345678'', address = ''Dhanmondi 27, Dhaka'', user_type = Household,
      points = Some 150, co2_saved = Some (255 / 10), earnings = None, jobs_today = None\<rparr>"

text \<open>The request of a submission of 2 kg of plastic and 1 kg of paper.\<close>

definition demo_request :: request where
  "demo_request =
     \<lparr>req_id = ''req_1'', submission_id = ''sub_1'', household_id = ''demo_household_1'',
      household_name = ''Rahul Ahmed'', household_address = ''Dhanmondi 27, Dhaka'',
      household_phone = ''01712345678'', req_total_weight = Some 3,
      req_waste_types = getWasteTypeBreakdown [(''plastic'', 2), (''paper'', 1)],
      estimated_value = 38, status = Pending, created_at = 1000, priority = Low,
      collector_id = None, collector_name = None, collector_phone = None,
      accepted_at = None\<rparr>"

definition medium_request :: request where
  "medium_request =
     demo_request\<lparr>req_id := ''req_m'', submission_id := ''sub_m'', req_total_weight := Some 7,
                   priority := Medium, created_at := 1000\<rparr>"

definition high_request :: request where
  "high_request =
     demo_request\<lparr>req_id := ''req_h'', submission_id := ''sub_h'', req_total_weight := Some 12,
                   priority := High, created_at := 2000\<rparr>"

definition empty_form :: "(string \<times> real) list" where
  "empty_form = map (\<lambda>w. (wtype w, 0)) WASTE_TYPES"

definition collector_state :: state where
  "collector_state =
     \<lparr>inputs = empty_form, wasteData = Some (summarize empty_form), user_submissions = [],
      pickup_requests = [demo_request], currentUser = Some demo_collector,
      session = Some demo_collector, users = []\<rparr>"

definition household_state :: state where
  "household_state =
     \<lparr>inputs = [(''plastic'', 2), (''paper'', 1)],
      wasteData = Some (summarize [(''plastic'', 2), (''paper'', 1)]), user_submissions = [],
      pickup_requests = [], currentUser = Some demo_household,
      session = Some demo_household, users = []\<rparr>"


definition once_accepted :: state where
  "once_accepted = snd (acceptPickupRequest ''req_1'' 2000 collector_state)"

definition twice_accepted :: state where
  "twice_accepted = snd (acceptPickupRequest ''req_1'' 3000 once_accepted)"

section \<open>The value calculator\<close>

lemma find_in_catalog:
  "distinct (map wtype ws) \<Longrightarrow> c \<in> set ws \<Longrightarrow> find (\<lambda>w. wtype w = wtype c) ws = Some c"
  by (induction ws) (auto simp: rev_image_eqI)

lemma WASTE_TYPES_distinct: "distinct (map wtype WASTE_TYPES)"
  by (simp add: WASTE_TYPES_def)

lemma find_unknown:
  "wasteType \<notin> wtype ` set ws \<Longrightarrow> find (\<lambda>w. wtype w = wasteType) ws = None"
  by (auto simp: find_None_iff)

lemmas fl_eval = fl_def nearest_def ulp_of_def expo_def pow2_def round_even_def

text \<open>
  C3. For a catalog category \<open>c\<close> and any weight \<open>w\<close> (so in particular \<open>w \<ge> 0\<close>) the
  calculator returns \<open>round (w * pointsFactor c)\<close>, \<open>round2 (w * emissionsFactor c)\<close> and
  \<open>round2 (w * price c)\<close>, the products and the roundings being the engine's operations
  on doubles; for a category identifier that is not in the catalog all three results are
  zero.
\<close>

theorem value_calculator:
  "(c \<in> set WASTE_TYPES \<longrightarrow>
      calculateWastePoints_f64 (wtype c) w = Math_round_f64 (js_mul w (fl (points_factor c))) \<and>
      calculateCO2Saved_f64 (wtype c) w = round2_f64 (js_mul w (fl (co2_factor c))) \<and>
      calculateTakaEarnings_f64 (wtype c) w = round2_f64 (js_mul w (fl (price_per_kg c)))) \<and>
   (wasteType \<notin> wtype ` set WASTE_TYPES \<longrightarrow>
      calculateWastePoints_f64 wasteType w = Fin 0 \<and>
      calculateCO2Saved_f64 wasteType w = Fin 0 \<and>
      calculateTakaEarnings_f64 wasteType w = Fin 0)"
proof (intro conjI impI)
  assume c: "c \<in> set WASTE_TYPES"
  have f: "find (\<lambda>x. wtype x = wtype c) WASTE_TYPES = Some c"
    using WASTE_TYPES_distinct c by (rule find_in_catalog)
  show "calculateWastePoints_f64 (wtype c) w = Math_round_f64 (js_mul w (fl (points_factor c)))"
    by (simp add: calculateWastePoints_f64_def f)
  show "calculateCO2Saved_f64 (wtype c) w = round2_f64 (js_mul w (fl (co2_factor c)))"
    by (simp add: calculateCO2Saved_f64_def round2_f64_def f)
  show "calculateTakaEarnings_f64 (wtype c) w = round2_f64 (js_mul w (fl (price_per_kg c)))"
    by (simp add: calculateTakaEarnings_f64_def round2_f64_def f)
next
  assume u: "wasteType \<notin> wtype ` set WASTE_TYPES"
  have f: "find (\<lambda>x. wtype x = wasteType) WASTE_TYPES = None"
    using u by (rule find_unknown)
  show "calculateWastePoints_f64 wasteType w = Fin 0"
    by (simp add: calculateWastePoints_f64_def f)
  show "calculateCO2Saved_f64 wasteType w = Fin 0"
    by (simp add: calculateCO2Saved_f64_def f)
  show "calculateTakaEarnings_f64 wasteType w = Fin 0"
    by (simp add: calculateTakaEarnings_f64_def f)
qed

text \<open>
  At 4.1 kg of metal the products are not the exact ones: the points are 61, where the
  exact product 61.5 would round to 62.
\<close>

theorem value_calculator_witness:
  "\<lparr>wtype = ''metal'', co2_factor = 1 / 10, points_factor = 15, price_per_kg = 45\<rparr>
     \<in> set WASTE_TYPES \<and>
   ''wood'' \<notin> wtype ` set WASTE_TYPES \<and>
   calculateWastePoints_f64 ''metal'' (fl (41 / 10)) = Fin 61 \<and>
   calculateCO2Saved_f64 ''metal'' (fl (41 / 10)) = fl (41 / 100) \<and>
   calculateTakaEarnings_f64 ''metal'' (fl (41 / 10)) = fl (1845 / 10) \<and>
   calculateWastePoints_f64 ''wood'' (fl (41 / 10)) = Fin 0 \<and>
   calculateCO2Saved_f64 ''wood'' (fl (41 / 10)) = Fin 0 \<and>
   calculateTakaEarnings_f64 ''wood'' (fl (41 / 10)) = Fin 0"
  using value_calculator
    [of "\<lparr>wtype = ''metal'', co2_factor = 1 / 10, points_factor = 15, price_per_kg = 45\<rparr>"
        "fl (41 / 10)" "''wood''"]
  by (simp add: WASTE_TYPES_def round2_f64_def fl_eval)

section \<open>Accepting a request\<close>

lemma findIndex_None: "findIndex P xs = None \<longleftrightarrow> (\<forall>x\<in>set xs. \<not> P x)"
  by (induction xs) auto

lemma findIndex_Some:
  "findIndex P xs = Some i \<Longrightarrow> i < length xs \<and> P (xs ! i) \<and> (\<forall>j<i. \<not> P (xs ! j))"
proof (induction xs arbitrary: i)
  case Nil
  then show ?case by simp
next
  case (Cons x xs)
  show ?case
  proof (cases "P x")
    case True
    with Cons.prems show ?thesis by simp
  next
    case False
    with Cons.prems obtain k where k: "findIndex P xs = Some k" "i = Suc k"
      by auto
    from Cons.IH [OF k(1)] False k(2) show ?thesis
      by (auto simp: nth_Cons split: nat.splits)
  qed
qed

lemma findIndex_distinct:
  "distinct (map f xs) \<Longrightarrow> i < length xs \<Longrightarrow>
   findIndex (\<lambda>x. f x = f (xs ! i)) xs = Some i"
proof (induction xs arbitrary: i)
  case Nil
  then show ?case by simp
next
  case (Cons x xs)
  show ?case
  proof (cases i)
    case 0
    then show ?thesis by simp
  next
    case (Suc k)
    with Cons.prems have k: "k < length xs" and d: "distinct (map f xs)"
      and nx: "f x \<notin> f ` set xs" by auto
    from k have "xs ! k \<in> set xs" by simp
    with nx have "f x \<noteq> f (xs ! k)" by force
    with Cons.IH [OF d k] Suc show ?thesis by simp
  qed
qed

lemma updateUser_fields:
  "pickup_requests (updateUser upd s) = pickup_requests s"
  "user_submissions (updateUser upd s) = user_submissions s"
  "inputs (updateUser upd s) = inputs s"
  "wasteData (updateUser upd s) = wasteData s"
  "currentUser (updateUser upd s) = map_option (\<lambda>u. Object_assign u upd) (currentUser s)"
  "session (updateUser upd s) =
     (case currentUser s of None \<Rightarrow> session s | Some u \<Rightarrow> Some (Object_assign u upd))"
  by (simp_all add: updateUser_def Let_def split: option.splits)

lemma Object_assign_accept:
  "Object_assign cu (no_updates\<lparr>upd_earnings := Some e, upd_jobs_today := Some j\<rparr>) =
     cu\<lparr>earnings := e, jobs_today := j\<rparr>"
  by (simp add: Object_assign_def no_updates_def)

lemma accept_found:
  assumes "currentUser s = Some cu" and "user_type cu = Collector"
    and "findIndex (\<lambda>r. req_id r = requestId) (pickup_requests s) = Some i"
  shows "acceptPickupRequest requestId now s =
    (RequestAccepted,
     updateUser (no_updates\<lparr>upd_earnings := Some (Some (or_zero (earnings cu) + estimated_value (pickup_requests s ! i))),
                            upd_jobs_today := Some (Some (or_zero (jobs_today cu) + 1))\<rparr>)
       (s\<lparr>pickup_requests := (pickup_requests s)[i := (pickup_requests s ! i)
           \<lparr>status := Accepted, collector_id := Some (uid cu),
      collector_name := Some (uname cu), collector_phone := Some (phone cu),
      accepted_at := Some now\<rparr>]\<rparr>))"
  using assms by (simp add: acceptPickupRequest_def Let_def)

lemma set_insert_by: "set (insert_by cmp x xs) = insert x (set xs)"
  by (induction xs) auto

lemma set_sort_by: "set (sort_by cmp xs) = set xs"
  by (induction xs) (simp_all add: sort_by_def set_insert_by)

lemma once_accepted_eq:
  "once_accepted = collector_state
     \<lparr>pickup_requests := [demo_request\<lparr>status := Accepted, collector_id := Some ''demo_collector_1'',
         collector_name := Some ''Karim Mia'', collector_phone := Some ''01798765432'',
         accepted_at := Some 2000\<rparr>],
      currentUser := Some (demo_collector\<lparr>earnings := Some 2538, jobs_today := Some 4\<rparr>),
      session := Some (demo_collector\<lparr>earnings := Some 2538, jobs_today := Some 4\<rparr>)\<rparr>"
  by (simp add: once_accepted_def acceptPickupRequest_def collector_state_def demo_collector_def
      demo_request_def updateUser_def Object_assign_def no_updates_def or_zero_def Let_def)

text \<open>
  C7. When no stored pickup request has the given identifier, \<open>accept\<close> called by a
  collector reports ``Request not found'' (the spec's \<open>NotFound\<close>) and changes
  nothing: the whole state, with the requests collection and every account in it, is the
  one it started from.
\<close>

theorem accept_unknown_request:
  assumes "currentUser s = Some cu" and "user_type cu = Collector"
    and "\<forall>r \<in> set (pickup_requests s). req_id r \<noteq> requestId"
  shows "acceptPickupRequest requestId now s = (RequestNotFound, s)"
proof -
  have "findIndex (\<lambda>r. req_id r = requestId) (pickup_requests s) = None"
    using assms(3) by (simp add: findIndex_None)
  with assms(1,2) show ?thesis
    by (simp add: acceptPickupRequest_def)
qed

theorem accept_unknown_request_witness:
  "currentUser collector_state = Some demo_collector \<and>
   user_type demo_collector = Collector \<and>
   map req_id (pickup_requests collector_state) = [''req_1''] \<and>
   acceptPickupRequest ''nonexistent'' 2000 collector_state = (RequestNotFound, collector_state)"
proof -
  have a: "currentUser collector_state = Some demo_collector"
    by (simp add: collector_state_def)
  have b: "user_type demo_collector = Collector"
    by (simp add: demo_collector_def)
  have c: "\<forall>r \<in> set (pickup_requests collector_state). req_id r \<noteq> ''nonexistent''"
    by (simp add: collector_state_def demo_request_def)
  have d: "map req_id (pickup_requests collector_state) = [''req_1'']"
    by (simp add: collector_state_def demo_request_def)
  from accept_unknown_request [OF a b c, of 2000] a b d show ?thesis
    by simp
qed

text \<open>
  C10. When the current actor is not a collector, \<open>accept\<close> reports ``Only collectors
  can accept requests'', an outcome of its own beside \<open>NotFound\<close>, whatever the request
  identifier is, and changes nothing: every request and every account stay as they were.
\<close>

theorem accept_requires_collector:
  assumes "currentUser s = Some cu" and "user_type cu \<noteq> Collector"
  shows "acceptPickupRequest requestId now s = (OnlyCollectors, s)"
  using assms by (simp add: acceptPickupRequest_def)

theorem accept_requires_collector_witness:
  "currentUser (collector_state\<lparr>currentUser := Some demo_household\<rparr>) = Some demo_household \<and>
   user_type demo_household = Household \<and>
   map status (pickup_requests (collector_state\<lparr>currentUser := Some demo_household\<rparr>)) = [Pending] \<and>
   acceptPickupRequest ''req_1'' 2000 (collector_state\<lparr>currentUser := Some demo_household\<rparr>) =
     (OnlyCollectors, collector_state\<lparr>currentUser := Some demo_household\<rparr>)"
proof -
  let ?s = "collector_state\<lparr>currentUser := Some demo_household\<rparr>"
  have a: "currentUser ?s = Some demo_household"
    by simp
  have b: "user_type demo_household = Household"
    by (simp add: demo_household_def)
  then have c: "user_type demo_household \<noteq> Collector"
    by simp
  have d: "map status (pickup_requests ?s) = [Pending]"
    by (simp add: collector_state_def demo_request_def)
  from accept_requires_collector [OF a c, of "''req_1''" 2000] a b d show ?thesis
    by simp
qed

text \<open>
  C2. For a stored pickup request with status \<open>pending\<close> (request identifiers being
  unique) and a collector as the current actor, \<open>accept\<close> succeeds: the stored request
  becomes the old one with status \<open>accepted\<close> and the collector's identifier, name,
  phone and the acceptance time stamped on it, and the collector's account is the old one
  with \<open>earnings\<close> increased by the request's \<open>estimatedValue\<close> and
  \<open>jobs_today\<close> increased by one; the account is saved as the session.
\<close>

theorem accept_pending_request:
  assumes cu: "currentUser s = Some cu" and col: "user_type cu = Collector"
    and d: "distinct (map req_id (pickup_requests s))"
    and i: "i < length (pickup_requests s)"
    and p: "status (pickup_requests s ! i) = Pending"
  shows "\<exists>s'. acceptPickupRequest (req_id (pickup_requests s ! i)) now s = (RequestAccepted, s') \<and>
     pickup_requests s' =
       (pickup_requests s)
         [i := (pickup_requests s ! i)
                 \<lparr>status := Accepted, collector_id := Some (uid cu),
                  collector_name := Some (uname cu), collector_phone := Some (phone cu),
                  accepted_at := Some now\<rparr>] \<and>
     currentUser s' =
       Some (cu\<lparr>earnings := Some (or_zero (earnings cu) + estimated_value (pickup_requests s ! i)),
                jobs_today := Some (or_zero (jobs_today cu) + 1)\<rparr>) \<and>
     session s' = currentUser s' \<and>
     user_submissions s' = user_submissions s"
proof -
  have f: "findIndex (\<lambda>r. req_id r = req_id (pickup_requests s ! i)) (pickup_requests s) = Some i"
    using d i by (rule findIndex_distinct)
  show ?thesis
    unfolding accept_found [OF cu col f]
    by (simp add: updateUser_fields cu Object_assign_accept)
qed

theorem accept_pending_request_witness:
  "currentUser collector_state = Some demo_collector \<and>
   user_type demo_collector = Collector \<and>
   distinct (map req_id (pickup_requests collector_state)) \<and>
   0 < length (pickup_requests collector_state) \<and>
   status (pickup_requests collector_state ! 0) = Pending \<and>
   acceptPickupRequest ''req_1'' 2000 collector_state = (RequestAccepted, once_accepted) \<and>
   map status (pickup_requests once_accepted) = [Accepted] \<and>
   map collector_id (pickup_requests once_accepted) = [Some ''demo_collector_1''] \<and>
   map accepted_at (pickup_requests once_accepted) = [Some 2000] \<and>
   currentUser once_accepted = Some (demo_collector\<lparr>earnings := Some 2538, jobs_today := Some 4\<rparr>)"
proof -
  have a: "currentUser collector_state = Some demo_collector"
    by (simp add: collector_state_def)
  have b: "user_type demo_collector = Collector"
    by (simp add: demo_collector_def)
  have c: "distinct (map req_id (pickup_requests collector_state))"
    by (simp add: collector_state_def)
  have d: "0 < length (pickup_requests collector_state)"
    by (simp add: collector_state_def)
  have e: "status (pickup_requests collector_state ! 0) = Pending"
    by (simp add: collector_state_def demo_request_def)
  have f: "req_id (pickup_requests collector_state ! 0) = ''req_1''"
    by (simp add: collector_state_def demo_request_def)
  from accept_pending_request [OF a b c d e, of 2000]
  have "fst (acceptPickupRequest ''req_1'' 2000 collector_state) = RequestAccepted"
    unfolding f by auto
  then have g: "acceptPickupRequest ''req_1'' 2000 collector_state = (RequestAccepted, once_accepted)"
    by (simp add: once_accepted_def prod_eq_iff)
  have h: "map status (pickup_requests once_accepted) = [Accepted]"
    "map collector_id (pickup_requests once_accepted) = [Some ''demo_collector_1'']"
    "map accepted_at (pickup_requests once_accepted) = [Some 2000]"
    "currentUser once_accepted = Some (demo_collector\<lparr>earnings := Some 2538, jobs_today := Some 4\<rparr>)"
    by (simp_all add: once_accepted_eq collector_state_def demo_request_def)
  from a b c d e g h show ?thesis
    by simp
qed

text \<open>
  C1, as the code has it. \<open>accept\<close> never reads the status of the request and has no
  \<open>InvalidState\<close> outcome. For every stored request (request identifiers being unique),
  pending or not, and every collector, it succeeds: the request gets status \<open>accepted\<close>,
  the calling collector's identifier and the new acceptance time, and the collector's
  account is credited with the request's \<open>estimatedValue\<close> and one job. What keeps an
  accepted request from being offered again is the listing: after the call no request
  with that identifier is among the pending requests that \<open>list\<close> returns.
\<close>

theorem accept_ignores_status:
  assumes cu: "currentUser s = Some cu" and col: "user_type cu = Collector"
    and d: "distinct (map req_id (pickup_requests s))"
    and i: "i < length (pickup_requests s)"
  shows "\<exists>s'. acceptPickupRequest (req_id (pickup_requests s ! i)) now s = (RequestAccepted, s') \<and>
     length (pickup_requests s') = length (pickup_requests s) \<and>
     status (pickup_requests s' ! i) = Accepted \<and>
     collector_id (pickup_requests s' ! i) = Some (uid cu) \<and>
     accepted_at (pickup_requests s' ! i) = Some now \<and>
     map_option earnings (currentUser s') =
       Some (Some (or_zero (earnings cu) + estimated_value (pickup_requests s ! i))) \<and>
     map_option jobs_today (currentUser s') = Some (Some (or_zero (jobs_today cu) + 1)) \<and>
     (\<forall>r \<in> set (loadPickupRequests s'). req_id r \<noteq> req_id (pickup_requests s ! i))"
proof -
  let ?rs = "pickup_requests s"
  let ?new = "(?rs ! i)\<lparr>status := Accepted, collector_id := Some (uid cu),
                  collector_name := Some (uname cu), collector_phone := Some (phone cu),
                  accepted_at := Some now\<rparr>"
  have f: "findIndex (\<lambda>r. req_id r = req_id (?rs ! i)) ?rs = Some i"
    using d i by (rule findIndex_distinct)
  have listed: "req_id r \<noteq> req_id (?rs ! i)"
    if r: "r \<in> set (?rs[i := ?new])" and pr: "status r = Pending" for r
  proof -
    from r obtain j where j: "j < length ?rs" and rj: "r = (?rs[i := ?new]) ! j"
      by (auto simp: in_set_conv_nth)
    have "j \<noteq> i"
      using rj pr i by auto
    then have "r = ?rs ! j"
      using rj by simp
    moreover have "req_id (?rs ! j) \<noteq> req_id (?rs ! i)"
      using d i j \<open>j \<noteq> i\<close> by (simp add: distinct_conv_nth)
    ultimately show ?thesis by simp
  qed
  show ?thesis
    unfolding accept_found [OF cu col f]
    using i listed
    by (simp add: updateUser_fields cu Object_assign_accept loadPickupRequests_def set_sort_by)
qed

theorem accept_ignores_status_witness:
  "currentUser once_accepted = Some (demo_collector\<lparr>earnings := Some 2538, jobs_today := Some 4\<rparr>) \<and>
   user_type (demo_collector\<lparr>earnings := Some 2538, jobs_today := Some 4\<rparr>) = Collector \<and>
   distinct (map req_id (pickup_requests once_accepted)) \<and>
   0 < length (pickup_requests once_accepted) \<and>
   status (pickup_requests once_accepted ! 0) = Accepted \<and>
   fst (acceptPickupRequest ''req_1'' 3000 once_accepted) = RequestAccepted \<and>
   loadPickupRequests twice_accepted = []"
proof -
  let ?cu = "demo_collector\<lparr>earnings := Some 2538, jobs_today := Some 4\<rparr>"
  have a: "currentUser once_accepted = Some ?cu"
    by (simp add: once_accepted_eq)
  have b: "user_type ?cu = Collector"
    by (simp add: demo_collector_def)
  have c: "distinct (map req_id (pickup_requests once_accepted))"
    by (simp add: once_accepted_eq)
  have d: "0 < length (pickup_requests once_accepted)"
    by (simp add: once_accepted_eq)
  have e: "status (pickup_requests once_accepted ! 0) = Accepted"
    by (simp add: once_accepted_eq)
  have f: "req_id (pickup_requests once_accepted ! 0) = ''req_1''"
    by (simp add: once_accepted_eq demo_request_def)
  from accept_ignores_status [OF a b c d, of 3000]
  obtain s' where s': "acceptPickupRequest ''req_1'' 3000 once_accepted = (RequestAccepted, s')"
    and len: "length (pickup_requests s') = length (pickup_requests once_accepted)"
    and st: "status (pickup_requests s' ! 0) = Accepted"
    unfolding f by blast
  from s' have g: "fst (acceptPickupRequest ''req_1'' 3000 once_accepted) = RequestAccepted"
    and tw: "twice_accepted = s'"
    by (simp_all add: twice_accepted_def)
  from len have "length (pickup_requests s') = 1"
    by (simp add: once_accepted_eq)
  then obtain r where r: "pickup_requests s' = [r]"
    by (auto simp: length_Suc_conv)
  with st have "status r = Accepted"
    by simp
  then have h: "loadPickupRequests twice_accepted = []"
    by (simp add: tw loadPickupRequests_def r sort_by_def)
  from a b c d e g h show ?thesis
    by simp
qed

text \<open>
  The claim as the spec words it fails: the demo collector accepts the pending request
  \<open>req_1\<close> (estimated value 38), and a second call on the now accepted request succeeds
  again, replaces the acceptance time and credits the account a second time.
\<close>

theorem double_accept_counterexample:
  "map status (pickup_requests once_accepted) = [Accepted] \<and>
   acceptPickupRequest ''req_1'' 3000 once_accepted = (RequestAccepted, twice_accepted) \<and>
   map accepted_at (pickup_requests once_accepted) = [Some 2000] \<and>
   map accepted_at (pickup_requests twice_accepted) = [Some 3000] \<and>
   map_option earnings (currentUser collector_state) = Some (Some 2500) \<and>
   map_option earnings (currentUser once_accepted) = Some (Some 2538) \<and>
   map_option earnings (currentUser twice_accepted) = Some (Some 2576) \<and>
   map_option jobs_today (currentUser twice_accepted) = Some (Some 5)"
  unfolding twice_accepted_def once_accepted_eq
  by (simp add: acceptPickupRequest_def collector_state_def demo_collector_def
      demo_request_def updateUser_def Object_assign_def no_updates_def or_zero_def Let_def)

section \<open>Batch valuation\<close>

lemma summary_loop_sums:
  "summary_loop ins (tw, tp, tc, tt) =
     (tw + sum_list (map snd (filter (\<lambda>(t, w). w > 0) ins)),
      tp + sum_list (map (\<lambda>(t, w). calculateWastePoints t w) (filter (\<lambda>(t, w). w > 0) ins)),
      tc + sum_list (map (\<lambda>(t, w). calculateCO2Saved t w) (filter (\<lambda>(t, w). w > 0) ins)),
      tt + sum_list (map (\<lambda>(t, w). calculateTakaEarnings t w) (filter (\<lambda>(t, w). w > 0) ins)))"
  by (induction ins "(tw, tp, tc, tt)" arbitrary: tw tp tc tt rule: summary_loop.induct) simp_all

lemma summarize_fields:
  "totalWeight (summarize ins) = sum_list (map snd (filter (\<lambda>(t, w). w > 0) ins))"
  "totalPoints (summarize ins) =
     sum_list (map (\<lambda>(t, w). calculateWastePoints t w) (filter (\<lambda>(t, w). w > 0) ins))"
  "totalCO2 (summarize ins) =
     sum_list (map (\<lambda>(t, w). calculateCO2Saved t w) (filter (\<lambda>(t, w). w > 0) ins))"
  "totalTaka (summarize ins) =
     sum_list (map (\<lambda>(t, w). calculateTakaEarnings t w) (filter (\<lambda>(t, w). w > 0) ins))"
  "wasteTypes (summarize ins) = getWasteTypeBreakdown ins"
  by (simp_all add: summarize_def summary_loop_sums)

lemma calc_plastic_paper:
  "calculateWastePoints ''plastic'' 2 = 20" "calculateWastePoints ''paper'' 1 = 10"
  "calculateCO2Saved ''plastic'' 2 = 24 / 10" "calculateCO2Saved ''paper'' 1 = 4 / 10"
  "calculateTakaEarnings ''plastic'' 2 = 24" "calculateTakaEarnings ''paper'' 1 = 8"
  by (simp_all add: calculateWastePoints_def calculateCO2Saved_def calculateTakaEarnings_def
      WASTE_TYPES_def Math_round_def)

lemma summarize_plastic_paper:
  "summarize [(''plastic'', 2), (''paper'', 1)] =
     \<lparr>totalWeight = 3, totalPoints = 30, totalCO2 = 28 / 10, totalTaka = 32,
      wasteTypes =
        [(''plastic'', \<lparr>weight = 2, entry_points = 20, entry_co2_saved = 24 / 10, taka_earned = 24\<rparr>),
         (''paper'', \<lparr>weight = 1, entry_points = 10, entry_co2_saved = 4 / 10, taka_earned = 8\<rparr>)]\<rparr>"
  by (simp add: summarize_def getWasteTypeBreakdown_def make_entry_def calc_plastic_paper)

lemma summary_loop_f64_sums:
  "summary_loop_f64 ins (tw, tp, tc, tt) =
     (foldl js_add tw (map snd (filter (\<lambda>(t, w). js_gt w (Fin 0)) ins)),
      foldl js_add tp (map (\<lambda>(t, w). calculateWastePoints_f64 t w)
        (filter (\<lambda>(t, w). js_gt w (Fin 0)) ins)),
      foldl js_add tc (map (\<lambda>(t, w). calculateCO2Saved_f64 t w)
        (filter (\<lambda>(t, w). js_gt w (Fin 0)) ins)),
      foldl js_add tt (map (\<lambda>(t, w). calculateTakaEarnings_f64 t w)
        (filter (\<lambda>(t, w). js_gt w (Fin 0)) ins)))"
  by (induction ins "(tw, tp, tc, tt)" arbitrary: tw tp tc tt rule: summary_loop_f64.induct)
    simp_all

lemma obj_assign_fresh: "k \<notin> fst ` set kvs \<Longrightarrow> obj_assign k v kvs = kvs @ [(k, v)]"
  by (induction kvs) auto

lemma breakdown_loop_f64_distinct:
  "distinct (map fst ins) \<Longrightarrow> fst ` set ins \<inter> fst ` set b = {} \<Longrightarrow>
   breakdown_loop_f64 ins b =
     b @ map (\<lambda>(t, w). (t, make_entry_f64 t w)) (filter (\<lambda>(t, w). js_gt w (Fin 0)) ins)"
proof (induction ins b rule: breakdown_loop_f64.induct)
  case (1 b)
  then show ?case by simp
next
  case (2 t w rest b)
  from "2.prems" have d: "distinct (map fst rest)" and t: "t \<notin> fst ` set rest"
    and tb: "t \<notin> fst ` set b" and rb: "fst ` set rest \<inter> fst ` set b = {}"
    by auto
  show ?case
  proof (cases "js_gt w (Fin 0)")
    case True
    have "fst ` set rest \<inter> fst ` set (b @ [(t, make_entry_f64 t w)]) = {}"
      using rb t by auto
    with "2.IH"(1) [OF True d] True tb show ?thesis
      by (simp add: obj_assign_fresh)
  next
    case False
    with "2.IH"(2) [OF False d rb] show ?thesis by simp
  qed
qed

lemma summarize_f64_fields:
  "totalWeight (summarize_f64 ins) = js_sum (map snd (filter (\<lambda>(t, w). js_gt w (Fin 0)) ins))"
  "totalPoints (summarize_f64 ins) =
     js_sum (map (\<lambda>(t, w). calculateWastePoints_f64 t w) (filter (\<lambda>(t, w). js_gt w (Fin 0)) ins))"
  "totalCO2 (summarize_f64 ins) =
     js_sum (map (\<lambda>(t, w). calculateCO2Saved_f64 t w) (filter (\<lambda>(t, w). js_gt w (Fin 0)) ins))"
  "totalTaka (summarize_f64 ins) =
     js_sum (map (\<lambda>(t, w). calculateTakaEarnings_f64 t w) (filter (\<lambda>(t, w). js_gt w (Fin 0)) ins))"
  "wasteTypes (summarize_f64 ins) = getWasteTypeBreakdown_f64 ins"
  by (simp_all add: summarize_f64_def summary_loop_f64_sums js_sum_def)

lemma summarize_f64_plastic_paper:
  "summarize_f64 [(''plastic'', Fin 2), (''paper'', Fin 1)] =
     \<lparr>totalWeight = Fin 3, totalPoints = Fin 30, totalCO2 = fl (28 / 10), totalTaka = Fin 32,
      wasteTypes =
        [(''plastic'', \<lparr>weight = Fin 2, entry_points = Fin 20,
                        entry_co2_saved = fl (24 / 10), taka_earned = Fin 24\<rparr>),
         (''paper'', \<lparr>weight = Fin 1, entry_points = Fin 10,
                      entry_co2_saved = fl (4 / 10), taka_earned = Fin 8\<rparr>)]\<rparr>"
  by (simp add: summarize_f64_def getWasteTypeBreakdown_f64_def make_entry_f64_def
      calculateWastePoints_f64_def calculateCO2Saved_f64_def calculateTakaEarnings_f64_def
      WASTE_TYPES_def fl_eval)

lemma per_category_rounding_f64:
  "totalCO2 (summarize_f64 [(''plastic'', fl (1 / 100)), (''paper'', fl (1 / 100))]) = fl (1 / 100)"
  "round2_f64 (js_add (js_mul (fl (1 / 100)) (fl (12 / 10))) (js_mul (fl (1 / 100)) (fl (4 / 10))))
     = fl (2 / 100)"
  "fl (1 / 100) \<noteq> fl (2 / 100)"
  by (simp_all add: summarize_f64_def calculateWastePoints_f64_def calculateCO2Saved_f64_def
      calculateTakaEarnings_f64_def WASTE_TYPES_def round2_f64_def fl_eval)

text \<open>
  C4. The batch totals count only the entries with a positive weight, and each total is
  the sum, as the loop adds doubles, of the per-category results of the value calculator,
  which are rounded one by one; the breakdown (for distinct categories) holds exactly
  those entries, each with its own rounded values. With 2 kg of plastic and 1 kg of paper
  the totals are weight 3, points 30, emissions 2.8 and value 32. Rounding per category is
  not rounding the sum: for a hundredth of a kilogram of plastic and of paper the total
  emissions are 0.01, while the sum of the unrounded products rounds to 0.02.
\<close>

theorem batch_valuation:
  "totalWeight (summarize_f64 ins) = js_sum (map snd (filter (\<lambda>(t, w). js_gt w (Fin 0)) ins)) \<and>
   totalPoints (summarize_f64 ins) =
     js_sum (map (\<lambda>(t, w). calculateWastePoints_f64 t w)
       (filter (\<lambda>(t, w). js_gt w (Fin 0)) ins)) \<and>
   totalCO2 (summarize_f64 ins) =
     js_sum (map (\<lambda>(t, w). calculateCO2Saved_f64 t w)
       (filter (\<lambda>(t, w). js_gt w (Fin 0)) ins)) \<and>
   totalTaka (summarize_f64 ins) =
     js_sum (map (\<lambda>(t, w). calculateTakaEarnings_f64 t w)
       (filter (\<lambda>(t, w). js_gt w (Fin 0)) ins)) \<and>
   (distinct (map fst ins) \<longrightarrow>
      wasteTypes (summarize_f64 ins) =
        map (\<lambda>(t, w). (t, make_entry_f64 t w)) (filter (\<lambda>(t, w). js_gt w (Fin 0)) ins)) \<and>
   summarize_f64 [(''plastic'', Fin 2), (''paper'', Fin 1)] =
     \<lparr>totalWeight = Fin 3, totalPoints = Fin 30, totalCO2 = fl (28 / 10), totalTaka = Fin 32,
      wasteTypes =
        [(''plastic'', \<lparr>weight = Fin 2, entry_points = Fin 20,
                        entry_co2_saved = fl (24 / 10), taka_earned = Fin 24\<rparr>),
         (''paper'', \<lparr>weight = Fin 1, entry_points = Fin 10,
                      entry_co2_saved = fl (4 / 10), taka_earned = Fin 8\<rparr>)]\<rparr> \<and>
   totalCO2 (summarize_f64 [(''plastic'', fl (1 / 100)), (''paper'', fl (1 / 100))]) = fl (1 / 100) \<and>
   round2_f64 (js_add (js_mul (fl (1 / 100)) (fl (12 / 10))) (js_mul (fl (1 / 100)) (fl (4 / 10))))
     = fl (2 / 100) \<and>
   fl (1 / 100) \<noteq> fl (2 / 100)"
proof -
  have "wasteTypes (summarize_f64 ins) =
        map (\<lambda>(t, w). (t, make_entry_f64 t w)) (filter (\<lambda>(t, w). js_gt w (Fin 0)) ins)"
    if "distinct (map fst ins)"
    using breakdown_loop_f64_distinct [OF that, of "[]"]
    by (simp add: summarize_f64_fields getWasteTypeBreakdown_f64_def)
  then show ?thesis
    using summarize_f64_fields(1-4) [of ins] summarize_f64_plastic_paper
      per_category_rounding_f64
    by blast
qed

theorem batch_valuation_witness:
  "distinct (map fst [(''plastic'', Fin 2), (''paper'', Fin 1)]) \<and>
   totalWeight (summarize_f64 [(''plastic'', Fin 2), (''paper'', Fin 1)]) = Fin 3 \<and>
   totalPoints (summarize_f64 [(''plastic'', Fin 2), (''paper'', Fin 1)]) = Fin 30 \<and>
   totalCO2 (summarize_f64 [(''plastic'', Fin 2), (''paper'', Fin 1)]) = fl (28 / 10) \<and>
   totalTaka (summarize_f64 [(''plastic'', Fin 2), (''paper'', Fin 1)]) = Fin 32 \<and>
   map fst (wasteTypes (summarize_f64 [(''plastic'', Fin 2), (''paper'', Fin 1)])) =
     [''plastic'', ''paper'']"
proof -
  have a: "distinct (map fst [(''plastic'', Fin 2), (''paper'', Fin 1)])"
    by simp
  from batch_valuation [of "[(''plastic'', Fin 2), (''paper'', Fin 1)]"]
  have b: "summarize_f64 [(''plastic'', Fin 2), (''paper'', Fin 1)] =
     \<lparr>totalWeight = Fin 3, totalPoints = Fin 30, totalCO2 = fl (28 / 10), totalTaka = Fin 32,
      wasteTypes =
        [(''plastic'', \<lparr>weight = Fin 2, entry_points = Fin 20,
                        entry_co2_saved = fl (24 / 10), taka_earned = Fin 24\<rparr>),
         (''paper'', \<lparr>weight = Fin 1, entry_points = Fin 10,
                      entry_co2_saved = fl (4 / 10), taka_earned = Fin 8\<rparr>)]\<rparr>"
    by blast
  show ?thesis
    unfolding b using a by simp
qed

text \<open>
  The sums are sums of doubles: 0.6 and 1.2 add up to the double below 1.8, and 0.1, 8.2
  and 1.7, added in this order, to the double below 10.
\<close>

lemma double_sums:
  "js_sum [fl (6 / 10), fl (12 / 10)] = Fin (8106479329266892 / 2 ^ 52)"
  "fl (18 / 10) = Fin (8106479329266893 / 2 ^ 52)"
  "js_sum [fl (1 / 10), fl (82 / 10), fl (17 / 10)] = Fin (10 - 1 / 2 ^ 49)"
  by (simp_all add: js_sum_def fl_eval)

section \<open>Recording a submission and creating its request\<close>

lemma createPickupRequest_appends:
  assumes "currentUser s = Some cu" and "waste_types sub = Some wts"
  shows "\<exists>r. createPickupRequest new_id now sub s =
            Inr (s\<lparr>pickup_requests := pickup_requests s @ [r]\<rparr>) \<and>
          status r = Pending \<and> submission_id r = sub_id sub \<and>
          priority r = (case total_weight sub of None \<Rightarrow> Low | Some tw \<Rightarrow> calculatePriority tw) \<and>
          req_total_weight r = total_weight sub \<and>
          estimated_value r = calculateEstimatedValue wts"
proof -
  let ?r = "\<lparr>req_id = new_id, submission_id = sub_id sub, household_id = uid cu,
      household_name = uname cu, household_address = address cu, household_phone = phone cu,
      req_total_weight = total_weight sub, req_waste_types = wts,
      estimated_value = calculateEstimatedValue wts, status = Pending, created_at = now,
      priority = (case total_weight sub of None \<Rightarrow> Low | Some tw \<Rightarrow> calculatePriority tw),
      collector_id = None, collector_name = None, collector_phone = None,
      accepted_at = None\<rparr>"
  have "createPickupRequest new_id now sub s =
      Inr (s\<lparr>pickup_requests := pickup_requests s @ [?r]\<rparr>)"
    using assms by (simp add: createPickupRequest_def Let_def)
  then show ?thesis
    by (intro exI [of _ ?r]) simp
qed


lemma resetWasteForm_fields:
  "user_submissions (resetWasteForm s) = user_submissions s"
  "pickup_requests (resetWasteForm s) = pickup_requests s"
  "currentUser (resetWasteForm s) = currentUser s"
  "session (resetWasteForm s) = session s"
  by (simp_all add: resetWasteForm_def updateWasteSummary_def)

lemma Object_assign_submit:
  "Object_assign cu (no_updates\<lparr>upd_points := Some p, upd_co2_saved := Some c\<rparr>) =
     cu\<lparr>points := p, co2_saved := c\<rparr>"
  by (simp add: Object_assign_def no_updates_def)

text \<open>The state after the submission is stored and the household is credited.\<close>

lemma submit_credited:
  assumes "currentUser s = Some cu"
  shows "currentUser
      (updateUser (no_updates\<lparr>upd_points := Some p, upd_co2_saved := Some c\<rparr>)
         (s\<lparr>user_submissions := subs\<rparr>)) = Some (cu\<lparr>points := p, co2_saved := c\<rparr>)"
    and "user_submissions
      (updateUser (no_updates\<lparr>upd_points := Some p, upd_co2_saved := Some c\<rparr>)
         (s\<lparr>user_submissions := subs\<rparr>)) = subs"
    and "pickup_requests
      (updateUser (no_updates\<lparr>upd_points := Some p, upd_co2_saved := Some c\<rparr>)
         (s\<lparr>user_submissions := subs\<rparr>)) = pickup_requests s"
  using assms by (simp_all add: updateUser_fields Object_assign_submit)

lemma submit_effect:
  assumes cu: "currentUser s = Some cu" and wd: "wasteData s = Some wd"
    and tw: "totalWeight wd \<noteq> 0"
  shows "\<exists>s3 r.
    handleWasteSubmission new_sub_id now new_req_id now' s = (WasteSubmitted, resetWasteForm s3) \<and>
    user_submissions s3 = user_submissions s @ [new_submission new_sub_id now cu (Some wd)] \<and>
    pickup_requests s3 = pickup_requests s @ [r] \<and>
    status r = Pending \<and> submission_id r = new_sub_id \<and>
    req_total_weight r = Some (totalWeight wd) \<and>
    priority r = calculatePriority (totalWeight wd) \<and>
    estimated_value r = calculateEstimatedValue (wasteTypes wd) \<and>
    currentUser s3 =
      Some (cu\<lparr>points := Some (or_zero (points cu) + totalPoints wd),
               co2_saved := Some (round2 (or_zero (co2_saved cu) + totalCO2 wd))\<rparr>)"
proof -
  let ?sub = "new_submission new_sub_id now cu (Some wd)"
  let ?upd = "no_updates
      \<lparr>upd_points := Some (Some (or_zero (points cu) + totalPoints wd)),
       upd_co2_saved := Some (Some (round2 (or_zero (co2_saved cu) + totalCO2 wd)))\<rparr>"
  let ?s2 = "updateUser ?upd (s\<lparr>user_submissions := user_submissions s @ [?sub]\<rparr>)"
  have c2: "currentUser ?s2 =
      Some (cu\<lparr>points := Some (or_zero (points cu) + totalPoints wd),
               co2_saved := Some (round2 (or_zero (co2_saved cu) + totalCO2 wd))\<rparr>)"
    and u2: "user_submissions ?s2 = user_submissions s @ [?sub]"
    and p2: "pickup_requests ?s2 = pickup_requests s"
    using cu by (rule submit_credited)+
  have w: "waste_types ?sub = Some (wasteTypes wd)"
    by (simp add: new_submission_def)
  from createPickupRequest_appends [OF c2 w, of new_req_id now']
  obtain r where r: "createPickupRequest new_req_id now' ?sub ?s2 =
        Inr (?s2\<lparr>pickup_requests := pickup_requests ?s2 @ [r]\<rparr>)"
      "status r = Pending" "submission_id r = sub_id ?sub"
      "priority r = (case total_weight ?sub of None \<Rightarrow> Low | Some tw \<Rightarrow> calculatePriority tw)"
      "req_total_weight r = total_weight ?sub"
      "estimated_value r = calculateEstimatedValue (wasteTypes wd)"
    by blast
  let ?s3 = "?s2\<lparr>pickup_requests := pickup_requests ?s2 @ [r]\<rparr>"
  have h: "handleWasteSubmission new_sub_id now new_req_id now' s =
      (case createPickupRequest new_req_id now' ?sub ?s2 of
         Inl e \<Rightarrow> (FailedToSubmit, ?s2)
       | Inr s3 \<Rightarrow> (WasteSubmitted, resetWasteForm s3))"
    unfolding handleWasteSubmission_def Let_def new_submission_def round2_def
    by (simp only: cu wd tw option.case option.map option.inject if_False)
  have "handleWasteSubmission new_sub_id now new_req_id now' s = (WasteSubmitted, resetWasteForm ?s3)"
    unfolding h r(1) by simp
  moreover have "user_submissions ?s3 = user_submissions s @ [?sub]"
    using u2 by simp
  moreover have "pickup_requests ?s3 = pickup_requests s @ [r]"
    using p2 by simp
  moreover have "currentUser ?s3 =
      Some (cu\<lparr>points := Some (or_zero (points cu) + totalPoints wd),
               co2_saved := Some (round2 (or_zero (co2_saved cu) + totalCO2 wd))\<rparr>)"
    using c2 by simp
  moreover have "submission_id r = new_sub_id" "req_total_weight r = Some (totalWeight wd)"
    "priority r = calculatePriority (totalWeight wd)"
    using r(3,4,5) by (simp_all add: new_submission_def)
  ultimately show ?thesis
    using r(2,6) by blast
qed






lemma Math_round_of_int: "Math_round (of_int k) = of_int k"
proof -
  have "\<lfloor>real_of_int k + 1 / 2\<rfloor> = k"
    by (simp add: floor_eq_iff)
  then show ?thesis
    by (simp add: Math_round_def)
qed

lemma round2_idem_add:
  assumes "round2 c = c" and "round2 d = d"
  shows "round2 (c + d) = c + d"
proof -
  from assms(1) have "c * 100 = of_int \<lfloor>c * 100 + 1 / 2\<rfloor>"
    by (simp add: round2_def Math_round_def field_simps)
  then obtain m :: int where m: "c * 100 = of_int m" ..
  from assms(2) have "d * 100 = of_int \<lfloor>d * 100 + 1 / 2\<rfloor>"
    by (simp add: round2_def Math_round_def field_simps)
  then obtain n :: int where n: "d * 100 = of_int n" ..
  have "(c + d) * 100 = of_int (m + n)"
    using m n by (simp add: algebra_simps)
  then have "Math_round ((c + d) * 100) = of_int (m + n)"
    by (simp only: Math_round_of_int)
  then show ?thesis
    using m n by (simp add: round2_def field_simps)
qed

lemma round2_28: "round2 (28 / 10) = 28 / 10"
  by (simp add: round2_def Math_round_def)

text \<open>
  C8. A successful submission changes the submitting household's account in two fields
  only: \<open>points\<close> becomes the old points plus the batch's total points, and
  \<open>co2_saved\<close> becomes the old value plus the batch's total emissions, rounded to two
  decimals after the addition; earnings, jobs_today and the profile fields keep their
  values. For the batch of 2 kg of plastic and 1 kg of paper, on an account whose
  \<open>co2_saved\<close> is a two-decimal amount (as every credit leaves it), points grow by
  exactly 30 and \<open>co2_saved\<close> by exactly 2.80.
\<close>

theorem submission_credits_household:
  assumes cu: "currentUser s = Some cu" and wd: "wasteData s = Some wd"
    and tw: "totalWeight wd \<noteq> 0"
  shows "\<exists>s' cu'. handleWasteSubmission new_sub_id now new_req_id now' s = (WasteSubmitted, s') \<and>
     currentUser s' = Some cu' \<and>
     points cu' = Some (or_zero (points cu) + totalPoints wd) \<and>
     co2_saved cu' = Some (round2 (or_zero (co2_saved cu) + totalCO2 wd)) \<and>
     cu' = cu\<lparr>points := points cu', co2_saved := co2_saved cu'\<rparr> \<and>
     earnings cu' = earnings cu \<and> jobs_today cu' = jobs_today cu \<and>
     uid cu' = uid cu \<and> uname cu' = uname cu \<and> email cu' = email cu \<and>
     phone cu' = phone cu \<and> address cu' = address cu \<and> user_type cu' = user_type cu \<and>
     (wd = summarize [(''plastic'', 2), (''paper'', 1)] \<and>
      round2 (or_zero (co2_saved cu)) = or_zero (co2_saved cu) \<longrightarrow>
        points cu' = Some (or_zero (points cu) + 30) \<and>
        co2_saved cu' = Some (or_zero (co2_saved cu) + 280 / 100))"
proof -
  let ?p = "or_zero (points cu) + totalPoints wd"
  let ?c = "round2 (or_zero (co2_saved cu) + totalCO2 wd)"
  let ?cu' = "cu\<lparr>points := Some ?p, co2_saved := Some ?c\<rparr>"
  from submit_effect [OF cu wd tw, of new_sub_id now new_req_id now']
  obtain s3 where h: "handleWasteSubmission new_sub_id now new_req_id now' s =
        (WasteSubmitted, resetWasteForm s3)"
    and c3: "currentUser s3 = Some ?cu'"
    by blast
  have c': "currentUser (resetWasteForm s3) = Some ?cu'"
    by (simp add: resetWasteForm_fields c3)
  have conc: "?p = or_zero (points cu) + 30 \<and> ?c = or_zero (co2_saved cu) + 280 / 100"
    if w: "wd = summarize [(''plastic'', 2), (''paper'', 1)]"
      and r: "round2 (or_zero (co2_saved cu)) = or_zero (co2_saved cu)"
  proof -
    have tp: "totalPoints wd = 30"
      by (simp add: w summarize_plastic_paper)
    have tc: "totalCO2 wd = 28 / 10"
      unfolding w summarize_plastic_paper by simp
    have "?c = round2 (or_zero (co2_saved cu) + 28 / 10)"
      by (simp only: tc)
    also have "\<dots> = or_zero (co2_saved cu) + 28 / 10"
      using r round2_28 by (rule round2_idem_add)
    finally have "?c = or_zero (co2_saved cu) + 280 / 100"
      by simp
    then show ?thesis
      by (simp add: tp)
  qed
  show ?thesis
    apply (rule exI [of _ "resetWasteForm s3"])
    apply (rule exI [of _ ?cu'])
    using h c' conc by simp
qed

theorem submission_credits_household_witness:
  "currentUser household_state = Some demo_household \<and>
   wasteData household_state = Some (summarize [(''plastic'', 2), (''paper'', 1)]) \<and>
   totalWeight (summarize [(''plastic'', 2), (''paper'', 1)]) = 3 \<and>
   round2 (or_zero (co2_saved demo_household)) = or_zero (co2_saved demo_household) \<and>
   currentUser (snd (handleWasteSubmission ''sub_1'' 900 ''req_1'' 1000 household_state)) =
     Some (demo_household\<lparr>points := Some 180, co2_saved := Some (283 / 10)\<rparr>)"
proof -
  let ?h = "handleWasteSubmission ''sub_1'' 900 ''req_1'' 1000 household_state"
  let ?wd = "summarize [(''plastic'', 2), (''paper'', 1)]"
  have a: "currentUser household_state = Some demo_household"
    by (simp add: household_state_def)
  have w: "wasteData household_state = Some ?wd"
    by (simp add: household_state_def)
  have tw3: "totalWeight ?wd = 3"
    by (simp add: summarize_plastic_paper)
  then have tw: "totalWeight ?wd \<noteq> 0"
    by simp
  have oz: "or_zero (points demo_household) = 150" "or_zero (co2_saved demo_household) = 255 / 10"
    by (simp_all add: demo_household_def or_zero_def)
  have r: "round2 (or_zero (co2_saved demo_household)) = or_zero (co2_saved demo_household)"
    unfolding oz by (simp add: round2_def Math_round_def)
  from submission_credits_household [OF a w tw, of "''sub_1''" 900 "''req_1''" 1000] r
  obtain s' cu' where h: "?h = (WasteSubmitted, s')" and c: "currentUser s' = Some cu'"
    and eq: "cu' = demo_household\<lparr>points := points cu', co2_saved := co2_saved cu'\<rparr>"
    and p: "points cu' = Some (or_zero (points demo_household) + 30)"
    and co: "co2_saved cu' = Some (or_zero (co2_saved demo_household) + 280 / 100)"
    by blast
  have p': "points cu' = Some 180"
    unfolding p oz by simp
  have co': "co2_saved cu' = Some (283 / 10)"
    unfolding co oz by simp
  from eq have "cu' = demo_household\<lparr>points := Some 180, co2_saved := Some (283 / 10)\<rparr>"
    unfolding p' co' .
  with h c have "currentUser (snd ?h) =
      Some (demo_household\<lparr>points := Some 180, co2_saved := Some (283 / 10)\<rparr>)"
    by simp
  with a tw3 w r show ?thesis
    by simp
qed

lemma estimate_plastic_paper:
  "calculateEstimatedValue (getWasteTypeBreakdown [(''plastic'', 2), (''paper'', 1)]) = 38"
  by (simp add: calculateEstimatedValue_def getWasteTypeBreakdown_def make_entry_def pricing_def
      Math_round_def Let_def)

text \<open>
  C9. The estimated value of a request comes from the rate table inside
  \<open>calculateEstimatedValue\<close>, not from the catalog's price per kilogram: the table rates
  plastic at 15 and metal at 25 where the catalog prices them at 12 and 45. One kilogram
  of plastic is estimated at 15 and valued at 12 by the calculator; the request created
  for 2 kg of plastic and 1 kg of paper has estimated value 38 while the batch's value is
  32.
\<close>

theorem estimate_differs_from_catalog_price:
  "map_of pricing ''plastic'' = Some 15 \<and>
   map price_per_kg (filter (\<lambda>w. wtype w = ''plastic'') WASTE_TYPES) = [12] \<and>
   map_of pricing ''metal'' = Some 25 \<and>
   map price_per_kg (filter (\<lambda>w. wtype w = ''metal'') WASTE_TYPES) = [45] \<and>
   calculateEstimatedValue (getWasteTypeBreakdown [(''plastic'', 1)]) = 15 \<and>
   calculateTakaEarnings ''plastic'' 1 = 12 \<and>
   map estimated_value
     (pickup_requests (snd (handleWasteSubmission ''sub_1'' 900 ''req_1'' 1000 household_state)))
     = [38] \<and>
   map_option totalTaka (wasteData household_state) = Some 32 \<and>
   (\<exists>t w. 0 < w \<and>
      calculateEstimatedValue (getWasteTypeBreakdown [(t, w)]) \<noteq> calculateTakaEarnings t w)"
proof -
  let ?wd = "summarize [(''plastic'', 2), (''paper'', 1)]"
  have a: "map_of pricing ''plastic'' = Some 15" "map_of pricing ''metal'' = Some 25"
    by (simp_all add: pricing_def)
  have b: "map price_per_kg (filter (\<lambda>w. wtype w = ''plastic'') WASTE_TYPES) = [12]"
    "map price_per_kg (filter (\<lambda>w. wtype w = ''metal'') WASTE_TYPES) = [45]"
    by (simp_all add: WASTE_TYPES_def)
  have c: "calculateEstimatedValue (getWasteTypeBreakdown [(''plastic'', 1)]) = 15"
    by (simp add: calculateEstimatedValue_def getWasteTypeBreakdown_def make_entry_def
        pricing_def Math_round_def Let_def)
  have d: "calculateTakaEarnings ''plastic'' 1 = 12"
    by (simp add: calculateTakaEarnings_def WASTE_TYPES_def Math_round_def)
  have cu: "currentUser household_state = Some demo_household"
    and wd: "wasteData household_state = Some ?wd"
    and pr: "pickup_requests household_state = []"
    by (simp_all add: household_state_def)
  have tw: "totalWeight ?wd \<noteq> 0"
    by (simp add: summarize_plastic_paper)
  from submit_effect [OF cu wd tw, of "''sub_1''" 900 "''req_1''" 1000]
  obtain s3 r where h: "handleWasteSubmission ''sub_1'' 900 ''req_1'' 1000 household_state =
        (WasteSubmitted, resetWasteForm s3)"
    and p3: "pickup_requests s3 = pickup_requests household_state @ [r]"
    and ev: "estimated_value r = calculateEstimatedValue (wasteTypes ?wd)"
    by blast
  have "estimated_value r = 38"
    by (simp add: ev summarize_fields estimate_plastic_paper)
  then have e: "map estimated_value
     (pickup_requests (snd (handleWasteSubmission ''sub_1'' 900 ''req_1'' 1000 household_state)))
     = [38]"
    by (simp add: h resetWasteForm_fields p3 pr)
  have f: "map_option totalTaka (wasteData household_state) = Some 32"
    by (simp add: wd summarize_plastic_paper)
  have "(0::real) < 1 \<and>
      calculateEstimatedValue (getWasteTypeBreakdown [(''plastic'', 1)]) \<noteq>
      calculateTakaEarnings ''plastic'' 1"
    by (simp add: c d)
  then have g: "\<exists>t w. 0 < w \<and>
      calculateEstimatedValue (getWasteTypeBreakdown [(t, w)]) \<noteq> calculateTakaEarnings t w"
    by blast
  from a b c d e f g show ?thesis by simp
qed

section \<open>Listing the pending requests\<close>

lemma priorityOrder_inj: "priorityOrder p = priorityOrder q \<longleftrightarrow> p = q"
  by (cases p; cases q) (simp_all add: priorityOrder_def)

lemma compare_requests_le:
  "compare_requests a b \<le> 0 \<longleftrightarrow> request_key a \<le> request_key b"
  by (auto simp: compare_requests_def request_key_def Let_def less_eq_prod_def)

lemma insert_by_compare: "insert_by compare_requests x xs = insort_key request_key x xs"
  by (induction xs) (simp_all add: compare_requests_le)

lemma sort_by_compare: "sort_by compare_requests xs = sort_key request_key xs"
  by (induction xs) (simp_all add: sort_by_def insert_by_compare)

lemma request_key_le:
  "request_key a \<le> request_key b \<longleftrightarrow>
     priorityOrder (priority b) < priorityOrder (priority a) \<or>
     priority a = priority b \<and> created_at b \<le> created_at a"
  by (auto simp: request_key_def less_eq_prod_def priorityOrder_inj)

lemma request_key_eq:
  "request_key a = request_key b \<longleftrightarrow> priority a = priority b \<and> created_at a = created_at b"
  by (auto simp: request_key_def priorityOrder_inj)

lemma map_eq_transfer:
  assumes e: "map k xs = map k ys" and r: "\<forall>a b. k a = k b \<longrightarrow> f a = f b"
  shows "map f xs = map f ys"
proof (rule nth_equalityI)
  from e have len: "length xs = length ys"
    by (rule map_eq_imp_length_eq)
  then show "length (map f xs) = length (map f ys)"
    by simp
  fix i
  assume "i < length (map f xs)"
  then have i: "i < length xs" "i < length ys"
    using len by simp_all
  have "map k xs ! i = map k ys ! i"
    by (simp only: e)
  then have "k (xs ! i) = k (ys ! i)"
    using i by simp
  with r have "f (xs ! i) = f (ys ! i)"
    by blast
  then show "map f xs ! i = map f ys ! i"
    using i by simp
qed

lemma load_mset:
  "mset (loadPickupRequests s) = mset (filter (\<lambda>r. status r = Pending) (pickup_requests s))"
  by (simp add: loadPickupRequests_def sort_by_compare)

lemma load_sorted:
  "sorted_wrt (\<lambda>a b. priorityOrder (priority b) < priorityOrder (priority a) \<or>
                      priority a = priority b \<and> created_at b \<le> created_at a)
     (loadPickupRequests s)"
proof -
  have "sorted (map request_key (loadPickupRequests s))"
    by (simp add: loadPickupRequests_def sort_by_compare)
  then show ?thesis
    by (simp add: sorted_map request_key_le)
qed

lemma load_keys_permutation_invariant:
  assumes "mset (pickup_requests s') = mset (pickup_requests s)"
  shows "map request_key (loadPickupRequests s') = map request_key (loadPickupRequests s)"
proof -
  let ?L = "map request_key (loadPickupRequests s)"
  let ?L' = "map request_key (loadPickupRequests s')"
  have m: "mset ?L' = mset ?L"
    using assms by (simp add: load_mset)
  have so: "sorted ?L" "sorted ?L'"
    by (simp_all add: loadPickupRequests_def sort_by_compare)
  have "sort ?L = ?L'"
    using m so(2) by (rule properties_for_sort)
  moreover have "sort ?L = ?L"
    using so(1) by (rule sorted_sort_id)
  ultimately show ?thesis by simp
qed

lemma load_set:
  "set (loadPickupRequests s) = {r \<in> set (pickup_requests s). status r = Pending}"
  by (simp add: loadPickupRequests_def set_sort_by)

text \<open>
  C6. The listing holds exactly the stored requests with status \<open>pending\<close>, each as
  often as it is stored, and it is sorted: of two listed requests, the earlier one has
  the higher priority (\<open>high\<close> over \<open>medium\<close> over \<open>low\<close>) or the same priority and
  a creation time that is not older. The order in which the requests were stored does not
  matter: two stores holding the same requests list the same sequence of priorities and
  creation times, and the same sequence of requests when no two pending requests agree in
  both. A pending \<open>high\<close> request created after a pending \<open>medium\<close> one is listed
  before it, whichever was stored first.
\<close>

theorem list_pending_sorted:
  "mset (loadPickupRequests s) = mset (filter (\<lambda>r. status r = Pending) (pickup_requests s)) \<and>
   sorted_wrt (\<lambda>a b. priorityOrder (priority b) < priorityOrder (priority a) \<or>
                       priority a = priority b \<and> created_at b \<le> created_at a)
     (loadPickupRequests s) \<and>
   priorityOrder Low < priorityOrder Medium \<and> priorityOrder Medium < priorityOrder High \<and>
   (mset (pickup_requests s') = mset (pickup_requests s) \<longrightarrow>
      map (\<lambda>r. (priority r, created_at r)) (loadPickupRequests s') =
      map (\<lambda>r. (priority r, created_at r)) (loadPickupRequests s)) \<and>
   (mset (pickup_requests s') = mset (pickup_requests s) \<and>
    inj_on (\<lambda>r. (priority r, created_at r)) {r \<in> set (pickup_requests s). status r = Pending} \<longrightarrow>
      loadPickupRequests s' = loadPickupRequests s) \<and>
   (status a = Pending \<and> status b = Pending \<and> priority a = High \<and> priority b = Medium \<and>
    created_at b < created_at a \<and>
    (pickup_requests s = [a, b] \<or> pickup_requests s = [b, a]) \<longrightarrow>
      loadPickupRequests s = [a, b])"
proof -
  have perm: "map (\<lambda>r. (priority r, created_at r)) (loadPickupRequests s') =
      map (\<lambda>r. (priority r, created_at r)) (loadPickupRequests s)"
    if m: "mset (pickup_requests s') = mset (pickup_requests s)"
  proof (rule map_eq_transfer [where k = request_key])
    show "map request_key (loadPickupRequests s') = map request_key (loadPickupRequests s)"
      using m by (rule load_keys_permutation_invariant)
    show "\<forall>x y. request_key x = request_key y \<longrightarrow>
        (priority x, created_at x) = (priority y, created_at y)"
      by (simp add: request_key_eq)
  qed
  have uniq: "loadPickupRequests s' = loadPickupRequests s"
    if m: "mset (pickup_requests s') = mset (pickup_requests s)"
      and inj: "inj_on (\<lambda>r. (priority r, created_at r))
                  {r \<in> set (pickup_requests s). status r = Pending}"
  proof -
    have "set (pickup_requests s') = set (pickup_requests s)"
      using m by (rule mset_eq_setD)
    then have "set (loadPickupRequests s') \<union> set (loadPickupRequests s) =
        {r \<in> set (pickup_requests s). status r = Pending}"
      by (auto simp: load_set)
    with inj have "inj_on (\<lambda>r. (priority r, created_at r))
        (set (loadPickupRequests s') \<union> set (loadPickupRequests s))"
      by simp
    then show ?thesis
      using perm [OF m] by (simp add: inj_on_map_eq_map)
  qed
  have two: "loadPickupRequests s = [a, b]"
    if "status a = Pending" "status b = Pending" "priority a = High" "priority b = Medium"
      "pickup_requests s = [a, b] \<or> pickup_requests s = [b, a]"
  proof -
    have c: "compare_requests a b \<le> 0" "\<not> compare_requests b a \<le> 0"
      using that(3,4) by (simp_all add: compare_requests_def priorityOrder_def)
    from that(5) show ?thesis
    proof
      assume "pickup_requests s = [a, b]"
      then show ?thesis
        using that(1,2) c by (simp add: loadPickupRequests_def sort_by_def)
    next
      assume "pickup_requests s = [b, a]"
      then show ?thesis
        using that(1,2) c by (simp add: loadPickupRequests_def sort_by_def)
    qed
  qed
  have ranks: "priorityOrder Low < priorityOrder Medium" "priorityOrder Medium < priorityOrder High"
    by (simp_all add: priorityOrder_def)
  show ?thesis
  proof (intro conjI impI)
    show "mset (loadPickupRequests s) =
        mset (filter (\<lambda>r. status r = Pending) (pickup_requests s))"
      by (rule load_mset)
    show "sorted_wrt (\<lambda>a b. priorityOrder (priority b) < priorityOrder (priority a) \<or>
                       priority a = priority b \<and> created_at b \<le> created_at a)
        (loadPickupRequests s)"
      by (rule load_sorted)
    show "priorityOrder Low < priorityOrder Medium" "priorityOrder Medium < priorityOrder High"
      by (rule ranks)+
  next
    assume "mset (pickup_requests s') = mset (pickup_requests s)"
    then show "map (\<lambda>r. (priority r, created_at r)) (loadPickupRequests s') =
      map (\<lambda>r. (priority r, created_at r)) (loadPickupRequests s)"
      by (rule perm)
  next
    assume "mset (pickup_requests s') = mset (pickup_requests s) \<and>
      inj_on (\<lambda>r. (priority r, created_at r)) {r \<in> set (pickup_requests s). status r = Pending}"
    then show "loadPickupRequests s' = loadPickupRequests s"
      using uniq by blast
  next
    assume "status a = Pending \<and> status b = Pending \<and> priority a = High \<and> priority b = Medium \<and>
      created_at b < created_at a \<and>
      (pickup_requests s = [a, b] \<or> pickup_requests s = [b, a])"
    then show "loadPickupRequests s = [a, b]"
      using two by blast
  qed
qed

theorem list_pending_sorted_witness:
  "mset (pickup_requests (collector_state\<lparr>pickup_requests := [high_request, medium_request]\<rparr>)) =
     mset (pickup_requests (collector_state\<lparr>pickup_requests := [medium_request, high_request]\<rparr>)) \<and>
   status high_request = Pending \<and> status medium_request = Pending \<and>
   priority high_request = High \<and> priority medium_request = Medium \<and>
   created_at medium_request < created_at high_request \<and>
   loadPickupRequests (collector_state\<lparr>pickup_requests := [medium_request, high_request]\<rparr>) =
     [high_request, medium_request] \<and>
   loadPickupRequests (collector_state\<lparr>pickup_requests := [high_request, medium_request]\<rparr>) =
     [high_request, medium_request]"
proof -
  let ?s = "collector_state\<lparr>pickup_requests := [medium_request, high_request]\<rparr>"
  let ?s' = "collector_state\<lparr>pickup_requests := [high_request, medium_request]\<rparr>"
  have m: "mset (pickup_requests ?s') = mset (pickup_requests ?s)"
    by simp
  have f: "status high_request = Pending" "status medium_request = Pending"
    "priority high_request = High" "priority medium_request = Medium"
    "created_at medium_request < created_at high_request"
    by (simp_all add: high_request_def medium_request_def demo_request_def)
  have ne: "medium_request \<noteq> high_request"
    using f(3,4) by auto
  have inj: "inj_on (\<lambda>r. (priority r, created_at r))
      {r \<in> set (pickup_requests ?s). status r = Pending}"
    using f by (auto simp: inj_on_def)
  have st: "pickup_requests ?s = [high_request, medium_request] \<or>
      pickup_requests ?s = [medium_request, high_request]"
    by simp
  note t = list_pending_sorted [of ?s ?s' high_request medium_request]
  from t f st have l: "loadPickupRequests ?s = [high_request, medium_request]"
    by blast
  from t m inj have "loadPickupRequests ?s' = loadPickupRequests ?s"
    by blast
  with l have l': "loadPickupRequests ?s' = [high_request, medium_request]"
    by simp
  from m f l l' show ?thesis
    by simp
qed

end
